theory Spec2Isabelle
  imports Complex_Main
begin

section \<open>Python strings over the 8-bit code points\<close>

text \<open>
  A Python \<open>str\<close> is a sequence of code points. The model is \<open>string\<close>, one
  \<open>char\<close> per code point, so it covers the texts whose code points are below 256
  (ASCII and Latin-1) and \<open>length\<close> is Python's \<open>len\<close>. The character classes
  below are Python 3's own on that range.
\<close>

definition is_space :: "char \<Rightarrow> bool" where
  \<comment> \<open>\<open>str.isspace\<close> on one character, also the class \<open>\\s\<close> of \<open>re\<close>.\<close>
  "is_space c = (c \<in> set [CHR 0x09, CHR 0x0A, CHR 0x0B, CHR 0x0C, CHR 0x0D,
                           CHR 0x1C, CHR 0x1D, CHR 0x1E, CHR 0x1F, CHR 0x20,
                           CHR 0x85, CHR 0xA0])"

definition is_word :: "char \<Rightarrow> bool" where
  \<comment> \<open>The class \<open>\\w\<close> of \<open>re\<close>: alphanumeric code points and the underscore.\<close>
  "is_word c =
     (let n = (of_char c :: int)
      in (48 \<le> n \<and> n \<le> 57) \<or> (65 \<le> n \<and> n \<le> 90) \<or> n = 95 \<or> (97 \<le> n \<and> n \<le> 122)
         \<or> n \<in> set [170, 178, 179, 181, 185, 186, 188, 189, 190]
         \<or> (192 \<le> n \<and> n \<le> 214) \<or> (216 \<le> n \<and> n \<le> 246) \<or> 248 \<le> n)"

definition lower_chr :: "char \<Rightarrow> char" where
  "lower_chr c =
     (let n = (of_char c :: int)
      in if (65 \<le> n \<and> n \<le> 90) \<or> (192 \<le> n \<and> n \<le> 214) \<or> (216 \<le> n \<and> n \<le> 222)
         then char_of (n + 32) else c)"

definition py_lower :: "string \<Rightarrow> string" where
  \<comment> \<open>\<open>s.lower()\<close>\<close>
  "py_lower s = map lower_chr s"

definition py_strip :: "string \<Rightarrow> string" where
  \<comment> \<open>\<open>s.strip()\<close>: white space removed at both ends.\<close>
  "py_strip s = rev (dropWhile is_space (rev (dropWhile is_space s)))"

fun startswith :: "string \<Rightarrow> string \<Rightarrow> bool" where
  \<comment> \<open>\<open>s.startswith(p)\<close>, written \<open>startswith p s\<close>.\<close>
  "startswith [] s = True"
| "startswith (p # ps) [] = False"
| "startswith (p # ps) (c # cs) = (p = c \<and> startswith ps cs)"

fun py_in :: "string \<Rightarrow> string \<Rightarrow> bool" where
  \<comment> \<open>\<open>p in s\<close> on strings: \<open>p\<close> occurs in \<open>s\<close> as a contiguous run.\<close>
  "py_in p [] = (p = [])"
| "py_in p (c # cs) = (startswith p (c # cs) \<or> py_in p cs)"

fun push_char :: "char \<Rightarrow> string list \<Rightarrow> string list" where
  "push_char c [] = [[c]]"
| "push_char c (l # ls) = (c # l) # ls"

fun split_nl :: "string \<Rightarrow> string list" where
  \<comment> \<open>\<open>s.split('\\n')\<close>: always at least one line.\<close>
  "split_nl [] = [[]]"
| "split_nl (c # cs) = (if c = CHR 0x0A then [] # split_nl cs else push_char c (split_nl cs))"

fun py_join :: "string \<Rightarrow> string list \<Rightarrow> string" where
  \<comment> \<open>\<open>sep.join(xs)\<close>\<close>
  "py_join sep [] = []"
| "py_join sep [x] = x"
| "py_join sep (x # y # ys) = x @ sep @ py_join sep (y # ys)"

fun show_nat :: "nat \<Rightarrow> string" where
  "show_nat n = (if n < 10 then [char_of (48 + n)]
                 else show_nat (n div 10) @ [char_of (48 + n mod 10)])"

declare show_nat.simps [simp del]

definition show_int :: "int \<Rightarrow> string" where
  \<comment> \<open>\<open>str(i)\<close> of an integer.\<close>
  "show_int i = (if i < 0 then CHR ''-'' # show_nat (nat (- i)) else show_nat (nat i))"

section \<open>The regular expressions the validators use\<close>

text \<open>
  The patterns of the source are sequences of single-character items with a repetition
  count, the assertion \<open>\\b\<close> and the anchor \<open>$\<close>. \<open>re.search\<close> only asks whether some
  match exists, so greediness plays no role.
\<close>

datatype citem = One char | Range char char | Space | Dot

datatype cclass = Pos "citem list" | Neg "citem list"

datatype ritem = Boundary | Eos | Rep cclass nat "nat option"

fun citem_has :: "citem \<Rightarrow> char \<Rightarrow> bool" where
  "citem_has (One a) c = (c = a)"
| "citem_has (Range a b) c = ((of_char a :: int) \<le> of_char c \<and> (of_char c :: int) \<le> of_char b)"
| "citem_has Space c = is_space c"
| "citem_has Dot c = (c \<noteq> CHR 0x0A)"

fun citem_has_ci :: "citem \<Rightarrow> char \<Rightarrow> bool" where
  \<comment> \<open>Under \<open>re.IGNORECASE\<close> the item is lowered and so is the character read.\<close>
  "citem_has_ci (One a) c = (lower_chr c = lower_chr a)"
| "citem_has_ci (Range a b) c =
     (lower_chr c \<in> set (map (lower_chr \<circ> char_of) [of_char a .. of_char b :: int]))"
| "citem_has_ci Space c = is_space c"
| "citem_has_ci Dot c = (c \<noteq> CHR 0x0A)"

fun class_has :: "bool \<Rightarrow> cclass \<Rightarrow> char \<Rightarrow> bool" where
  "class_has ci (Pos xs) c = (\<exists>x \<in> set xs. if ci then citem_has_ci x c else citem_has x c)"
| "class_has ci (Neg xs) c = (\<not> (\<exists>x \<in> set xs. if ci then citem_has_ci x c else citem_has x c))"

definition at_boundary :: "char option \<Rightarrow> string \<Rightarrow> bool" where
  \<comment> \<open>\<open>\\b\<close>: exactly one of the characters before and after the position is a word character.\<close>
  "at_boundary p s =
     ((case p of None \<Rightarrow> False | Some a \<Rightarrow> is_word a) \<noteq> (case s of [] \<Rightarrow> False | c # _ \<Rightarrow> is_word c))"

definition at_eos :: "string \<Rightarrow> bool" where
  \<comment> \<open>\<open>$\<close>: the end of the text, or just before a newline that ends it.\<close>
  "at_eos s = (s = [] \<or> s = [CHR 0x0A])"

fun dec_max :: "nat option \<Rightarrow> nat option" where
  "dec_max None = None"
| "dec_max (Some k) = Some (k - 1)"

fun rmatch :: "bool \<Rightarrow> ritem list \<Rightarrow> char option \<Rightarrow> string \<Rightarrow> bool" where
  \<comment> \<open>Does the pattern match at this position (\<open>p\<close> is the character before it)? An
      item is left as soon as it has its minimum and what follows matches; otherwise it
      takes one more character if it may. An assertion \<open>\\b\<close> holds where it stands
      and what follows matches there (the model looks at what follows first).\<close>
  "rmatch ci [] p s = True"
| "rmatch ci (Boundary # r) p s = (if rmatch ci r p s then at_boundary p s else False)"
| "rmatch ci (Eos # r) p s = (if at_eos s then rmatch ci r p s else False)"
| "rmatch ci (Rep c m mx # r) p [] = (if m = 0 then rmatch ci r p [] else False)"
| "rmatch ci (Rep c m mx # r) p (x # xs) =
     (if (if m = 0 then rmatch ci r p (x # xs) else False) then True
      else if mx = Some 0 then False
      else if class_has ci c x then rmatch ci (Rep c (m - 1) (dec_max mx) # r) (Some x) xs
      else False)"

fun search_from :: "bool \<Rightarrow> ritem list \<Rightarrow> char option \<Rightarrow> string \<Rightarrow> bool" where
  "search_from ci r p [] = rmatch ci r p []"
| "search_from ci r p (x # xs) = (rmatch ci r p (x # xs) \<or> search_from ci r (Some x) xs)"

definition re_search :: "bool \<Rightarrow> ritem list \<Rightarrow> string \<Rightarrow> bool" where
  \<comment> \<open>\<open>re.search(pattern, s)\<close> is not \<open>None\<close>; the flag is \<open>re.IGNORECASE\<close>.\<close>
  "re_search ci r s = search_from ci r None s"

definition lit :: "string \<Rightarrow> ritem list" where
  "lit w = map (\<lambda>c. Rep (Pos [One c]) 1 (Some 1)) w"

definition rep_star :: "cclass \<Rightarrow> ritem" where "rep_star c = Rep c 0 None"
definition rep_plus :: "cclass \<Rightarrow> ritem" where "rep_plus c = Rep c 1 None"
definition rep_opt :: "cclass \<Rightarrow> ritem" where "rep_opt c = Rep c 0 (Some 1)"

section \<open>Values, configuration and library functions\<close>

text \<open>
  The values that plans and tool arguments carry are the JSON-like ones; a \<open>dict\<close>
  has string keys and is an association list in insertion order, with distinct keys.
\<close>

datatype pyval =
    PNone
  | PBool bool
  | PInt int
  | PStr string
  | PList "pyval list"
  | PDict "(string \<times> pyval) list"

type_synonym pydict = "(string \<times> pyval) list"

fun truthy :: "pyval \<Rightarrow> bool" where
  "truthy PNone = False"
| "truthy (PBool b) = b"
| "truthy (PInt i) = (i \<noteq> 0)"
| "truthy (PStr s) = (s \<noteq> [])"
| "truthy (PList xs) = (xs \<noteq> [])"
| "truthy (PDict d) = (d \<noteq> [])"

fun type_name :: "pyval \<Rightarrow> string" where
  "type_name PNone = ''NoneType''"
| "type_name (PBool b) = ''bool''"
| "type_name (PInt i) = ''int''"
| "type_name (PStr s) = ''str''"
| "type_name (PList xs) = ''list''"
| "type_name (PDict d) = ''dict''"

definition dict_has :: "string \<Rightarrow> pydict \<Rightarrow> bool" where
  \<comment> \<open>\<open>k in d\<close>\<close>
  "dict_has k d = (map_of d k \<noteq> None)"

definition dict_get :: "pydict \<Rightarrow> string \<Rightarrow> pyval \<Rightarrow> pyval" where
  \<comment> \<open>\<open>d.get(k, default)\<close>\<close>
  "dict_get d k dflt = (case map_of d k of None \<Rightarrow> dflt | Some v \<Rightarrow> v)"

definition py_or :: "pyval \<Rightarrow> pyval \<Rightarrow> pyval" where
  \<comment> \<open>\<open>a or b\<close>\<close>
  "py_or a b = (if truthy a then a else b)"

record parsed_url =
  scheme :: string
  netloc :: string
  hostname :: "string option"

text \<open>
  The functions of Python's standard library that the validators call are parameters of
  the model; \<open>Inl\<close> is the text of the exception they raise.
\<close>

record pylib =
  urlparse :: "pyval \<Rightarrow> string + parsed_url"
  json_dumps :: "pyval \<Rightarrow> string + string"
  json_loads :: "string \<Rightarrow> string + pyval"
  py_str :: "pyval \<Rightarrow> string"

record config =
  max_input_length :: int
  max_json_depth :: int
  max_files_per_call :: int
  max_url_calls_per_domain :: int
  url_call_window_seconds :: int
  request_timeout_seconds :: int
  allow_non_ascii :: bool
  blocked_commands :: "string list"
  blocked_file_operations :: "string list"
  max_plan_length :: int

definition default_config :: config where
  "default_config =
     \<lparr> max_input_length = 50000,
       max_json_depth = 10,
       max_files_per_call = 3,
       max_url_calls_per_domain = 5,
       url_call_window_seconds = 60,
       request_timeout_seconds = 10,
       allow_non_ascii = True,
       blocked_commands =
         [''rm -rf'', ''rm -fr'', ''rmdir /s'', ''del /f'', ''format'',
          ''dd if=/dev/zero'', '':(){:|:&};:'', ''mkfs'', ''sudo rm'',
          ''> /dev/sda'', ''mv /* '', ''chmod -R 777 /'', ''chown -R''],
       blocked_file_operations =
         [''/etc/'', ''/sys/'', ''/proc/'', ''/dev/'', ''/boot/'',
          [CHR ''C'', CHR '':'', CHR 0x5C] @ ''Windows'' @ [CHR 0x5C],
          [CHR ''C'', CHR '':'', CHR 0x5C] @ ''Program Files'' @ [CHR 0x5C],
          ''/var/'', ''/usr/bin/''],
       max_plan_length = 10000 \<rparr>"

type_synonym verdict = "bool \<times> string option"

definition fmt_msg :: "string option \<Rightarrow> string" where
  \<comment> \<open>An optional message inside an f-string.\<close>
  "fmt_msg m = (case m of None \<Rightarrow> ''None'' | Some t \<Rightarrow> t)"

section \<open>The validators of \<open>HeuristicValidator\<close>\<close>

subsection \<open>1. URL validation\<close>

definition is_str :: "pyval \<Rightarrow> bool" where
  "is_str v = (case v of PStr s \<Rightarrow> True | _ \<Rightarrow> False)"

definition validate_url :: "pylib \<Rightarrow> pyval \<Rightarrow> verdict" where
  "validate_url L url =
     (if \<not> truthy url \<or> \<not> is_str url then (False, Some ''URL is empty or not a string'')
      else case urlparse L url of
        Inl e \<Rightarrow> (False, Some (''Malformed URL: '' @ e))
      | Inr parsed \<Rightarrow>
          if scheme parsed \<notin> set [''http'', ''https'']
          then (False, Some (''Invalid URL scheme: '' @ scheme parsed @ ''. Only http/https allowed.''))
          else if netloc parsed = [] then (False, Some ''URL missing domain/host'')
          else (case hostname parsed of
                  None \<Rightarrow> (True, None)
                | Some h \<Rightarrow>
                    if h \<in> set [''localhost'', ''127.0.0.1'', ''0.0.0.0'', ''::1'']
                    then (False, Some (''Access to '' @ h @ '' is blocked for security reasons''))
                    else if h \<noteq> [] \<and> (startswith ''192.168.'' h \<or> startswith ''10.'' h
                                        \<or> startswith ''172.16.'' h)
                    then (False, Some ''Access to private IP range is blocked'')
                    else (True, None)))"

subsection \<open>2. JSON validation\<close>

fun py_max :: "int list \<Rightarrow> int" where
  \<comment> \<open>\<open>max\<close> of a non-empty sequence (the source guards the empty one).\<close>
  "py_max (x # xs) = fold max xs x"

fun get_depth :: "int \<Rightarrow> pyval \<Rightarrow> int \<Rightarrow> int" where
  "get_depth max_depth (PDict kvs) current_depth =
     (if current_depth > max_depth then current_depth
      else if kvs \<noteq> []
      then py_max (map (\<lambda>kv. get_depth max_depth (snd kv) (current_depth + 1)) kvs)
      else current_depth)"
| "get_depth max_depth (PList xs) current_depth =
     (if current_depth > max_depth then current_depth
      else if xs \<noteq> []
      then py_max (map (\<lambda>item. get_depth max_depth item (current_depth + 1)) xs)
      else current_depth)"
| "get_depth max_depth v current_depth = current_depth"

definition effective_max_depth :: "config \<Rightarrow> int option \<Rightarrow> int" where
  \<comment> \<open>\<open>max_depth or self.config.max_json_depth\<close>: \<open>None\<close> and \<open>0\<close> give the configured limit.\<close>
  "effective_max_depth cfg max_depth =
     (case max_depth of None \<Rightarrow> max_json_depth cfg
      | Some d \<Rightarrow> if d = 0 then max_json_depth cfg else d)"

definition validate_json_input ::
  "pylib \<Rightarrow> config \<Rightarrow> string \<Rightarrow> int option \<Rightarrow> bool \<times> string option \<times> pyval option" where
  "validate_json_input L cfg json_str max_depth =
     (let md = effective_max_depth cfg max_depth
      in if json_str = [] then (False, Some ''JSON input is empty or not a string'', None)
         else case json_loads L json_str of
           Inl e \<Rightarrow> (False, Some (''Invalid JSON: '' @ e), None)
         | Inr parsed \<Rightarrow>
             (let depth = get_depth md parsed 0
              in if depth > md
                 then (False, Some (''JSON depth ('' @ show_int depth
                                      @ '') exceeds maximum allowed ('' @ show_int md @ '')''),
                       Some parsed)
                 else (True, None, Some parsed)))"

subsection \<open>3. Input length validation\<close>

definition validate_input_length :: "config \<Rightarrow> string \<Rightarrow> verdict" where
  "validate_input_length cfg text =
     (let length = int (length text)
      in if length > max_input_length cfg
         then (False, Some (''Input too long: '' @ show_int length @ '' chars (max: ''
                             @ show_int (max_input_length cfg) @ '')''))
         else (True, None))"

subsection \<open>5. Rate limiting\<close>

text \<open>
  \<open>url_call_tracker\<close> is a \<open>defaultdict(list)\<close>: every domain has a list of
  timestamps, empty until a call is recorded. \<open>time.time()\<close> is the argument \<open>now\<close>;
  timestamps are real numbers.
\<close>

type_synonym tracker = "string \<Rightarrow> real list"

definition check_url_rate_limit ::
  "pylib \<Rightarrow> config \<Rightarrow> real \<Rightarrow> pyval \<Rightarrow> tracker \<Rightarrow> verdict \<times> tracker" where
  "check_url_rate_limit L cfg current_time url url_call_tracker =
     (case urlparse L url of
        Inl e \<Rightarrow> ((False, Some ''Cannot parse domain from URL''), url_call_tracker)
      | Inr parsed \<Rightarrow>
          (let domain = netloc parsed;
               window_start = current_time - real_of_int (url_call_window_seconds cfg);
               kept = filter (\<lambda>t. t > window_start) (url_call_tracker domain);
               call_count = int (length kept)
           in if call_count \<ge> max_url_calls_per_domain cfg
              then ((False, Some (''Rate limit exceeded for '' @ domain @ '': ''
                                   @ show_int call_count @ '' calls in ''
                                   @ show_int (url_call_window_seconds cfg) @ ''s (max: ''
                                   @ show_int (max_url_calls_per_domain cfg) @ '')'')),
                    url_call_tracker(domain := kept))
              else ((True, None), url_call_tracker(domain := kept @ [current_time]))))"

subsection \<open>7. File input validation\<close>

definition attribute_error :: "pyval \<Rightarrow> string \<Rightarrow> string" where
  "attribute_error v a =
     [CHR 0x27] @ type_name v @ [CHR 0x27] @ '' object has no attribute ''
       @ [CHR 0x27] @ a @ [CHR 0x27]"

fun scan_blocked :: "string list \<Rightarrow> pyval \<Rightarrow> string + string option" where
  \<comment> \<open>The inner loop over the blocked prefixes; \<open>path.lower()\<close> raises on a non-string.\<close>
  "scan_blocked [] path = Inr None"
| "scan_blocked (blocked # bs) path =
     (case path of
        PStr s \<Rightarrow> if py_in (py_lower blocked) (py_lower s) then Inr (Some blocked)
                  else scan_blocked bs path
      | _ \<Rightarrow> Inl (attribute_error path ''lower''))"

fun scan_paths :: "string list \<Rightarrow> pyval list \<Rightarrow> string + string option" where
  "scan_paths bl [] = Inr None"
| "scan_paths bl (path # ps) =
     (case scan_blocked bl path of
        Inl e \<Rightarrow> Inl e
      | Inr (Some blocked) \<Rightarrow> Inr (Some blocked)
      | Inr None \<Rightarrow> scan_paths bl ps)"

definition validate_file_inputs :: "config \<Rightarrow> pyval list \<Rightarrow> string + verdict" where
  "validate_file_inputs cfg file_paths =
     (if int (length file_paths) > max_files_per_call cfg
      then Inr (False, Some (''Too many files: '' @ show_int (int (length file_paths))
                              @ '' (max: '' @ show_int (max_files_per_call cfg) @ '')''))
      else case scan_paths (blocked_file_operations cfg) file_paths of
        Inl e \<Rightarrow> Inl e
      | Inr (Some blocked) \<Rightarrow> Inr (False, Some (''Access to '' @ blocked @ '' is blocked for security''))
      | Inr None \<Rightarrow> Inr (True, None))"

subsection \<open>8. Dangerous command detection\<close>

definition sp :: cclass where "sp = Pos [Space]"
definition dot :: cclass where "dot = Pos [Dot]"
definition one_of :: "string \<Rightarrow> ritem" where
  \<comment> \<open>One character out of the given ones: \<open>[rf]\<close>.\<close>
  "one_of cs = Rep (Pos (map One cs)) 1 (Some 1)"

definition exec_markers :: "string list" where
  "exec_markers = [''subprocess.'', ''os.system('', ''os.popen('', ''exec('', ''eval('']"

definition has_marker :: "string \<Rightarrow> bool" where
  \<comment> \<open>\<open>any(keyword in stripped for keyword in [...])\<close>\<close>
  "has_marker stripped = (\<exists>keyword \<in> set exec_markers. py_in keyword stripped)"

definition code_lines :: "string \<Rightarrow> string list" where
  \<comment> \<open>The stripped lines the loop appends: not a comment, and with an execution marker.\<close>
  "code_lines command =
     filter (\<lambda>stripped. \<not> startswith ''#'' stripped \<and> has_marker stripped)
            (map py_strip (split_nl command))"

definition command_patterns :: "ritem list list" where
  \<comment> \<open>\<open>dangerous_patterns\<close> of \<open>validate_command_safety\<close>, in the source's order. The
      empty group \<open>()\<close> of the last one matches the empty text and is left out.\<close>
  "command_patterns =
     [ lit ''rm'' @ [rep_plus sp] @ lit ''-'' @ [Rep (Pos [One CHR ''r'', One CHR ''f'']) 1 (Some 2)]
         @ [rep_plus sp] @ lit ''/'',
       lit ''>'' @ [rep_star sp] @ lit ''/dev/sd'' @ [Rep (Pos [Range CHR ''a'' CHR ''z'']) 1 (Some 1)],
       lit ''dd'' @ [rep_plus sp] @ lit ''if='' @ [rep_star dot] @ lit ''of=/dev/'',
       lit ''mkfs.'',
       lit '':{'' @ [rep_star dot] @ lit ''|'' @ [rep_star dot] @ lit ''&};:'' ]"

definition validate_command_safety :: "config \<Rightarrow> pyval \<Rightarrow> verdict" where
  "validate_command_safety cfg command =
     (case command of
        PStr text \<Rightarrow>
          (let command_code = py_join [CHR 0x0A] (code_lines text)
           in if command_code = [] then (True, None)
              else case find (\<lambda>blocked_cmd. py_in (py_lower blocked_cmd) (py_lower command_code))
                             (blocked_commands cfg) of
                Some blocked_cmd \<Rightarrow>
                  (False, Some (''Dangerous command detected: '' @ [CHR 0x27] @ blocked_cmd @ [CHR 0x27]))
              | None \<Rightarrow>
                  if \<exists>pattern \<in> set command_patterns. re_search False pattern (py_lower command_code)
                  then (False, Some ''Dangerous command pattern detected'')
                  else (True, None))
      | _ \<Rightarrow> (False, Some ''Command is not a string''))"

subsection \<open>9. Tool registry validation\<close>

definition validate_tool_exists :: "string \<Rightarrow> string list \<Rightarrow> verdict" where
  "validate_tool_exists tool_name available_tools =
     (if tool_name \<notin> set available_tools
      then (False, Some (''Tool '' @ [CHR 0x27] @ tool_name @ [CHR 0x27] @ '' not found in registry. ''
                          @ ''Available tools: '' @ py_join '', '' (take 5 available_tools) @ ''...''))
      else (True, None))"

subsection \<open>10. Plan validation\<close>

definition call_pattern :: "string \<Rightarrow> ritem list" where
  \<comment> \<open>\<open>\\bNAME\\s*\\(\<close>\<close>
  "call_pattern name = [Boundary] @ lit name @ [rep_star sp] @ lit ''(''"

definition plan_patterns :: "(ritem list \<times> string) list" where
  \<comment> \<open>\<open>dangerous_patterns\<close> of \<open>validate_generated_plan\<close>, in the source's order.\<close>
  "plan_patterns =
     [ ([Boundary] @ lit ''subprocess'' @ [Boundary], ''subprocess''),
       ([Boundary] @ lit ''os.system'' @ [Boundary], ''os.system''),
       (call_pattern ''eval'', ''eval''),
       (call_pattern ''exec'', ''exec''),
       (call_pattern ''__import__'', ''__import__''),
       (call_pattern ''open'', ''open''),
       (call_pattern ''file'', ''file''),
       (call_pattern ''input'', ''input''),
       (call_pattern ''raw_input'', ''raw_input''),
       (call_pattern ''execfile'', ''execfile'') ]"

definition line_hit :: "ritem list \<Rightarrow> string \<Rightarrow> bool" where
  \<comment> \<open>The body of the inner loop: a line that is not a comment and that the pattern finds.\<close>
  "line_hit pattern line = (\<not> startswith ''#'' (py_strip line) \<and> re_search False pattern line)"

definition validate_generated_plan :: "config \<Rightarrow> string \<Rightarrow> verdict" where
  "validate_generated_plan cfg plan_code =
     (case validate_input_length cfg plan_code of
        (False, msg) \<Rightarrow> (False, Some (''Plan too long: '' @ fmt_msg msg))
      | (True, _) \<Rightarrow>
          (case find (\<lambda>(pattern, name). \<exists>line \<in> set (split_nl plan_code). line_hit pattern line)
                     plan_patterns of
             Some (pattern, name) \<Rightarrow>
               (False, Some (''Dangerous operation '' @ [CHR 0x27] @ name @ [CHR 0x27]
                              @ '' detected in plan''))
           | None \<Rightarrow>
               (case validate_command_safety cfg (PStr plan_code) of
                  (False, msg) \<Rightarrow> (False, Some (''Dangerous command in plan: '' @ fmt_msg msg))
                | (True, _) \<Rightarrow> (True, None))))"

subsection \<open>Additional heuristics used by the pipeline\<close>

definition quote :: cclass where
  \<comment> \<open>\<open>["\\']\<close>\<close>
  "quote = Pos [One CHR 0x22, One CHR 0x27]"

definition key_chars :: cclass where
  \<comment> \<open>\<open>[a-zA-Z0-9_\\-]\<close>\<close>
  "key_chars = Pos [Range CHR ''a'' CHR ''z'', Range CHR ''A'' CHR ''Z'', Range CHR ''0'' CHR ''9'',
                    One CHR ''_'', One CHR ''-'']"

definition api_key_patterns :: "ritem list list" where
  \<comment> \<open>The alternation \<open>(sk|pk)\<close> is written \<open>[sp]k\<close>; in the last class \<open>\\\\-_\<close> is the
      range from the backslash to the underscore.\<close>
  "api_key_patterns =
     [ lit ''api'' @ [rep_opt (Pos [One CHR ''_'', One CHR ''-''])] @ lit ''key''
         @ [rep_opt quote, rep_star sp, one_of '':='', rep_star sp, Rep quote 1 (Some 1), Rep key_chars 20 None],
       lit ''secret'' @ [rep_opt (Pos [One CHR ''_'', One CHR ''-''])] @ lit ''key''
         @ [rep_opt quote, rep_star sp, one_of '':='', rep_star sp, Rep quote 1 (Some 1), Rep key_chars 20 None],
       lit ''password''
         @ [rep_opt quote, rep_star sp, one_of '':='', rep_star sp, Rep quote 1 (Some 1),
            Rep (Neg [One CHR 0x22, One CHR 0x27]) 8 None],
       [one_of ''sp''] @ lit ''k_'' @ [Rep (Pos [Range CHR ''a'' CHR ''z'']) 4 None] @ lit ''_''
         @ [Rep (Pos [Range CHR ''a'' CHR ''z'', Range CHR ''A'' CHR ''Z'', Range CHR ''0'' CHR ''9'']) 20 None],
       lit ''AIza''
         @ [Rep (Pos [Range CHR ''0'' CHR ''9'', Range CHR ''A'' CHR ''Z'', Range CHR ''a'' CHR ''z'',
                      Range CHR 0x5C CHR ''_'']) 35 (Some 35)] ]"

definition validate_api_key_exposure :: "string \<Rightarrow> verdict" where
  "validate_api_key_exposure text =
     (if \<exists>pattern \<in> set api_key_patterns. re_search True pattern text
      then (False, Some ''Potential API key or secret detected in input. Please use environment variables.'')
      else (True, None))"

definition sql_patterns :: "ritem list list" where
  "sql_patterns =
     [ lit [CHR 0x27] @ [rep_star sp] @ lit ''OR'' @ [rep_plus sp] @ lit ([CHR 0x27] @ ''1'' @ [CHR 0x27])
         @ [rep_star sp] @ lit ''='' @ [rep_star sp] @ lit ([CHR 0x27] @ ''1''),
       lit '';'' @ [rep_star sp] @ lit ''DROP'' @ [rep_plus sp] @ lit ''TABLE'',
       lit ''UNION'' @ [rep_plus sp] @ lit ''SELECT'',
       lit ''--'' @ [rep_star sp, Eos],
       lit [CHR 0x27] @ [rep_star sp] @ lit '';'' ]"

definition validate_sql_injection :: "string \<Rightarrow> verdict" where
  "validate_sql_injection query =
     (if \<exists>pattern \<in> set sql_patterns. re_search True pattern query
      then (False, Some ''Potential SQL injection pattern detected'')
      else (True, None))"

subsection \<open>The validation pipeline of a tool call\<close>

text \<open>
  \<open>validate_tool_call\<close> runs its numbered steps in order and collects every failure.
  Besides the result and the tracker it returns, as a ghost value, the checks it has
  invoked, in the order of the calls. A step that raises ends the pipeline with \<open>Inl\<close>.
\<close>

datatype check =
    Chk_tool_exists | Chk_json | Chk_api_key | Chk_url | Chk_rate_limit
  | Chk_file | Chk_command | Chk_sql

definition failure :: "string \<Rightarrow> verdict \<Rightarrow> string list" where
  \<comment> \<open>\<open>if not valid: errors.append(label + msg)\<close>\<close>
  "failure label v = (case v of (valid, msg) \<Rightarrow> if \<not> valid then [label @ fmt_msg msg] else [])"

definition args_step :: "pylib \<Rightarrow> config \<Rightarrow> pydict \<Rightarrow> string list \<times> check list" where
  \<comment> \<open>Step 2, the \<open>try\<close> block around \<open>json.dumps\<close>.\<close>
  "args_step L cfg tool_args =
     (case json_dumps L (PDict tool_args) of
        Inl e \<Rightarrow> ([''Error validating tool args: '' @ e], [])
      | Inr args_str \<Rightarrow>
          (case validate_json_input L cfg args_str None of
             (valid, msg, _) \<Rightarrow>
               (failure ''Tool args validation: '' (valid, msg)
                  @ failure [] (validate_api_key_exposure args_str),
                [Chk_json, Chk_api_key])))"

definition url_step ::
  "pylib \<Rightarrow> config \<Rightarrow> real \<Rightarrow> pydict \<Rightarrow> tracker \<Rightarrow> (string list \<times> check list) \<times> tracker" where
  \<comment> \<open>Step 3.\<close>
  "url_step L cfg now tool_args tr =
     (if dict_has ''url'' tool_args \<or> dict_has ''input'' tool_args
      then (case dict_get tool_args ''input'' (PDict []) of
              PDict input_dict \<Rightarrow>
                (case map_of input_dict ''url'' of
                   None \<Rightarrow> (([], []), tr)
                 | Some url \<Rightarrow>
                     (case validate_url L url of
                        (False, msg) \<Rightarrow> ((failure ''URL validation: '' (False, msg), [Chk_url]), tr)
                      | (True, _) \<Rightarrow>
                          (case check_url_rate_limit L cfg now url tr of
                             (v, tr') \<Rightarrow> ((failure ''Rate limit: '' v, [Chk_url, Chk_rate_limit]), tr'))))
            | _ \<Rightarrow> (([], []), tr))
      else (([], []), tr))"

definition file_step :: "config \<Rightarrow> pydict \<Rightarrow> string + string list \<times> check list" where
  \<comment> \<open>Step 4.\<close>
  "file_step cfg tool_args =
     (if dict_has ''file_path'' tool_args \<or> dict_has ''path'' tool_args
      then (case dict_get tool_args ''input'' (PDict []) of
              PDict input_dict \<Rightarrow>
                (let file_path = py_or (dict_get input_dict ''file_path'' PNone)
                                       (dict_get input_dict ''path'' PNone)
                 in if truthy file_path
                    then (case validate_file_inputs cfg [file_path] of
                            Inl e \<Rightarrow> Inl e
                          | Inr v \<Rightarrow> Inr (failure ''File validation: '' v, [Chk_file]))
                    else Inr ([], []))
            | _ \<Rightarrow> Inr ([], []))
      else Inr ([], []))"

definition command_step :: "config \<Rightarrow> pydict \<Rightarrow> string list \<times> check list" where
  \<comment> \<open>Step 5.\<close>
  "command_step cfg tool_args =
     (if dict_has ''command'' tool_args \<or> dict_has ''code'' tool_args
      then (case dict_get tool_args ''input'' (PDict []) of
              PDict input_dict \<Rightarrow>
                (let cmd = py_or (dict_get input_dict ''command'' PNone)
                                 (dict_get input_dict ''code'' (PStr []))
                 in if truthy cmd
                    then (failure ''Command safety: '' (validate_command_safety cfg cmd), [Chk_command])
                    else ([], []))
            | _ \<Rightarrow> ([], []))
      else ([], []))"

definition query_step :: "pydict \<Rightarrow> string list \<times> check list" where
  \<comment> \<open>Step 6.\<close>
  "query_step tool_args =
     (if dict_has ''query'' tool_args
      then (case dict_get tool_args ''input'' (PDict []) of
              PDict input_dict \<Rightarrow>
                (case map_of input_dict ''query'' of
                   Some (PStr query) \<Rightarrow>
                     (failure ''SQL injection check: '' (validate_sql_injection query), [Chk_sql])
                 | _ \<Rightarrow> ([], []))
            | _ \<Rightarrow> ([], []))
      else ([], []))"

definition validate_tool_call ::
  "pylib \<Rightarrow> config \<Rightarrow> real \<Rightarrow> string \<Rightarrow> pydict \<Rightarrow> string list \<Rightarrow> tracker
     \<Rightarrow> (string + bool \<times> string list) \<times> tracker \<times> check list" where
  "validate_tool_call L cfg now tool_name tool_args available_tools tr =
     (let e1 = failure [] (validate_tool_exists tool_name available_tools);
          (e2, c2) = args_step L cfg tool_args;
          ((e3, c3), tr') = url_step L cfg now tool_args tr
      in case file_step cfg tool_args of
           Inl e \<Rightarrow> (Inl e, tr', [Chk_tool_exists] @ c2 @ c3 @ [Chk_file])
         | Inr (e4, c4) \<Rightarrow>
             (let (e5, c5) = command_step cfg tool_args;
                  (e6, c6) = query_step tool_args;
                  errors = e1 @ e2 @ e3 @ e4 @ e5 @ e6
              in (Inr (errors = [], errors), tr', [Chk_tool_exists] @ c2 @ c3 @ c4 @ c5 @ c6)))"

section \<open>The gateway and the runner of \<open>modules/action.py\<close>\<close>

text \<open>
  The dispatcher, the clock and the Python interpreter are outside the repository. The
  dispatcher and the clock act on a world \<open>'w\<close>; \<open>exec_plan\<close> stands for
  \<open>exec(compile(code, ...))\<close> followed by the lookup of \<open>solve\<close>: it raises, or leaves
  no \<open>solve\<close>, or leaves a \<open>solve\<close> whose run is a \<open>plan\<close>. A plan returns, raises, or
  awaits \<open>mcp.call_tool\<close> and goes on with what the call returned or raised (so it may
  catch the exception).

  What the plan text and the run of \<open>solve\<close> raise is any Python exception. The runner
  tells an instance of \<open>Exception\<close> from the other exceptions (\<open>SystemExit\<close>,
  \<open>KeyboardInterrupt\<close>, \<open>asyncio.CancelledError\<close>), and it takes the text \<open>str(e)\<close> of
  the exception, a call that may raise in its turn. What the gateway itself raises is a
  \<open>RuntimeError\<close>, and what the dispatcher and the library functions raise is taken to be
  an \<open>Exception\<close> with a text: these are given by their text.
\<close>

datatype exc =
    Exception "exc + string"
    \<comment> \<open>an instance of \<open>Exception\<close>: \<open>str(e)\<close> returns the text, or raises\<close>
  | Base_exception string
    \<comment> \<open>an exception that is not an instance of \<open>Exception\<close>, by its name\<close>

datatype plan =
    Return pyval
  | Raise exc
  | Await_call string pydict "(string + pyval) \<Rightarrow> plan"

datatype dresult = Returned pyval | Raised string | Timed_out

record 'w env =
  list_all_tools :: "'w \<Rightarrow> (string + string list) \<times> 'w"
  dispatcher_call_tool :: "string \<Rightarrow> pydict \<Rightarrow> 'w \<Rightarrow> dresult \<times> 'w"
  time_time :: "'w \<Rightarrow> real"
  exec_plan :: "string \<Rightarrow> exc + plan option"

datatype event = Ev_exec | Ev_list_tools | Ev_call_tool string pydict

text \<open>
  The state: the world, the tracker of the global validator, the counter of the run's
  \<open>SandboxMCP\<close>, and (ghost) the log of what was executed and asked of the dispatcher.
\<close>

record 'w state =
  world :: 'w
  url_call_tracker :: tracker
  call_count :: int
  events :: "event list"

definition MAX_TOOL_CALLS_PER_PLAN :: int where
  "MAX_TOOL_CALLS_PER_PLAN = 5"

definition budget_error :: string where
  "budget_error = ''Exceeded max tool calls ('' @ show_int MAX_TOOL_CALLS_PER_PLAN @ '') in solve() plan.''"

definition timeout_error :: "config \<Rightarrow> string" where
  \<comment> \<open>The text of \<open>HeuristicViolation("TIMEOUT", ...)\<close>, re-raised as \<open>RuntimeError\<close>.\<close>
  "timeout_error cfg =
     ''[ERROR] TIMEOUT: Operation exceeded '' @ show_int (request_timeout_seconds cfg) @ ''s timeout''"

definition call_tool ::
  "pylib \<Rightarrow> config \<Rightarrow> 'w env \<Rightarrow> string \<Rightarrow> pydict \<Rightarrow> 'w state \<Rightarrow> (string + pyval) \<times> 'w state" where
  "call_tool L cfg E tool_name input_dict s =
     (let s1 = s\<lparr>call_count := call_count s + 1\<rparr>
      in if call_count s1 > MAX_TOOL_CALLS_PER_PLAN then (Inl budget_error, s1)
         else case list_all_tools E (world s1) of
           (listed, w1) \<Rightarrow>
             (let s2 = s1\<lparr>world := w1, events := events s1 @ [Ev_list_tools]\<rparr>
              in case listed of
                   Inl e \<Rightarrow> (Inl e, s2)
                 | Inr available_tools \<Rightarrow>
                     (case validate_tool_call L cfg (time_time E w1) tool_name input_dict
                             available_tools (url_call_tracker s2) of
                        (v, tr', checks) \<Rightarrow>
                          (let s3 = s2\<lparr>url_call_tracker := tr'\<rparr>
                           in case v of
                                Inl e \<Rightarrow> (Inl e, s3)
                              | Inr (is_valid, errors) \<Rightarrow>
                                  if \<not> is_valid
                                  then (Inl (''Tool call validation failed: '' @ py_join ''; '' errors), s3)
                                  else (case dispatcher_call_tool E tool_name input_dict (world s3) of
                                          (r, w2) \<Rightarrow>
                                            (let s4 = s3\<lparr>world := w2,
                                                          events := events s3 @ [Ev_call_tool tool_name input_dict]\<rparr>
                                             in case r of
                                                  Returned result \<Rightarrow> (Inr result, s4)
                                                | Timed_out \<Rightarrow> (Inl (timeout_error cfg), s4)
                                                | Raised e \<Rightarrow> (Inl e, s4)))))))"

primrec run_plan ::
  "pylib \<Rightarrow> config \<Rightarrow> 'w env \<Rightarrow> plan \<Rightarrow> 'w state \<Rightarrow> (exc + pyval) \<times> 'w state" where
  "run_plan L cfg E (Return v) = (\<lambda>s. (Inr v, s))"
| "run_plan L cfg E (Raise e) = (\<lambda>s. (Inl e, s))"
| "run_plan L cfg E (Await_call tool_name input_dict k) =
     (\<lambda>s. case call_tool L cfg E tool_name input_dict s of
             (r, s') \<Rightarrow> run_plan L cfg E (k r) s')"

definition format_result :: "pylib \<Rightarrow> pyval \<Rightarrow> string + string" where
  \<comment> \<open>"Clean result formatting"; \<open>json.dumps\<close> may raise.\<close>
  "format_result L result =
     (case result of
        PDict d \<Rightarrow> (case map_of d ''result'' of
                      Some v \<Rightarrow> Inr (py_str L v)
                    | None \<Rightarrow> json_dumps L (PDict d))
      | PList xs \<Rightarrow> Inr (py_join '' '' (map (py_str L) xs))
      | _ \<Rightarrow> Inr (py_str L result))"

definition fresh_run :: "'w state \<Rightarrow> 'w state" where
  \<comment> \<open>\<open>sandbox.mcp = SandboxMCP(dispatcher)\<close>: a new counter; the execution that follows is
      logged.\<close>
  "fresh_run s = s\<lparr>call_count := 0, events := events s @ [Ev_exec]\<rparr>"

definition sandbox_body ::
  "pylib \<Rightarrow> config \<Rightarrow> 'w env \<Rightarrow> string \<Rightarrow> 'w state \<Rightarrow> (exc + string) \<times> 'w state" where
  \<comment> \<open>The \<open>try\<close> block: a fresh gateway, the plan loaded and run, the result formatted.
      The missing \<open>solve\<close> is a \<open>ValueError\<close>, the failure of \<open>json.dumps\<close> a
      \<open>TypeError\<close>.\<close>
  "sandbox_body L cfg E code s =
     (let s0 = fresh_run s
      in case exec_plan E code of
           Inl e \<Rightarrow> (Inl e, s0)
         | Inr None \<Rightarrow> (Inl (Exception (Inr ''No solve() function found in plan.'')), s0)
         | Inr (Some solve_fn) \<Rightarrow>
             (case run_plan L cfg E solve_fn s0 of
                (Inl e, s') \<Rightarrow> (Inl e, s')
              | (Inr result, s') \<Rightarrow>
                  (case format_result L result of
                     Inl msg \<Rightarrow> (Inl (Exception (Inr msg)), s')
                   | Inr text \<Rightarrow> (Inr text, s'))))"

definition handle_exception :: "exc \<Rightarrow> exc + string" where
  \<comment> \<open>\<open>except Exception as e\<close>: an instance of \<open>Exception\<close> is caught and its text goes
      into the log line and into the returned text; when \<open>str(e)\<close> raises, that exception
      leaves the handler. Any other exception is not caught.\<close>
  "handle_exception e =
     (case e of
        Exception (Inr msg) \<Rightarrow> Inr (''[sandbox error: '' @ msg @ '']'')
      | Exception (Inl raised) \<Rightarrow> Inl raised
      | Base_exception name \<Rightarrow> Inl (Base_exception name))"

definition run_python_sandbox ::
  "pylib \<Rightarrow> config \<Rightarrow> 'w env \<Rightarrow> string \<Rightarrow> 'w state \<Rightarrow> (exc + string) \<times> 'w state" where
  \<comment> \<open>\<open>Inr\<close> is the text returned, \<open>Inl\<close> an exception that leaves the function.\<close>
  "run_python_sandbox L cfg E code s =
     (case validate_generated_plan cfg code of
        (is_safe, error_msg) \<Rightarrow>
          if \<not> is_safe
          then (Inr (''[sandbox error: Security validation failed - '' @ fmt_msg error_msg @ '']''), s)
          else (case sandbox_body L cfg E code s of
                  (Inl e, s') \<Rightarrow> (handle_exception e, s')
                | (Inr text, s') \<Rightarrow> (Inr text, s')))"

section \<open>Notions of the specification\<close>

text \<open>
  The nesting depth as the specification words it: the depth of a leaf is the number of
  mappings and sequences above it, and the depth of a structure is the largest depth of a
  leaf. A scalar and an empty container are leaves.
\<close>

fun leaf_depths :: "pyval \<Rightarrow> nat list" where
  "leaf_depths (PDict kvs) =
     (if kvs = [] then [0] else concat (map (\<lambda>kv. map Suc (leaf_depths (snd kv))) kvs))"
| "leaf_depths (PList xs) =
     (if xs = [] then [0] else concat (map (\<lambda>item. map Suc (leaf_depths item)) xs))"
| "leaf_depths v = [0]"

definition nesting_depth :: "pyval \<Rightarrow> nat" where
  "nesting_depth v = Max (set (leaf_depths v))"

text \<open>
  The timestamps of a list that lie within the rate window at a given time: those less
  than \<open>url_call_window_seconds\<close> old.
\<close>

definition in_window :: "config \<Rightarrow> real \<Rightarrow> real list \<Rightarrow> real list" where
  "in_window cfg now ts = filter (\<lambda>t. now - t < real_of_int (url_call_window_seconds cfg)) ts"


definition url_checks :: "check list \<Rightarrow> check list" where
  "url_checks cs = filter (\<lambda>c. c = Chk_url \<or> c = Chk_rate_limit) cs"

text \<open>
  The calls of a plan run: for each \<open>mcp.call_tool\<close> that the plan awaits, in order, the
  state the call found, its name and arguments, and what it returned or raised.
\<close>

primrec calls_of_run ::
  "pylib \<Rightarrow> config \<Rightarrow> 'w env \<Rightarrow> plan \<Rightarrow> 'w state
     \<Rightarrow> ('w state \<times> (string \<times> pydict) \<times> (string + pyval)) list" where
  "calls_of_run L cfg E (Return v) = (\<lambda>s. [])"
| "calls_of_run L cfg E (Raise e) = (\<lambda>s. [])"
| "calls_of_run L cfg E (Await_call tool_name input_dict k) =
     (\<lambda>s. case call_tool L cfg E tool_name input_dict s of
             (r, s') \<Rightarrow> (s, (tool_name, input_dict), r) # calls_of_run L cfg E (k r) s')"

text \<open>
  A call is valid in a state when, the budget apart, it goes through: the dispatcher
  lists its tools, the validation passes, and the dispatcher returns a result in time.
  It is rejected by the validation when the dispatcher lists its tools and the
  validation fails.
\<close>

definition valid_call :: "pylib \<Rightarrow> config \<Rightarrow> 'w env \<Rightarrow> string \<times> pydict \<Rightarrow> 'w state \<Rightarrow> bool" where
  "valid_call L cfg E c s =
     (case list_all_tools E (world s) of
        (Inr available_tools, w1) \<Rightarrow>
          (case validate_tool_call L cfg (time_time E w1) (fst c) (snd c) available_tools
                  (url_call_tracker s) of
             (Inr (True, errors), tr', checks) \<Rightarrow>
               (case dispatcher_call_tool E (fst c) (snd c) w1 of
                  (Returned result, w2) \<Rightarrow> True
                | _ \<Rightarrow> False)
           | _ \<Rightarrow> False)
      | _ \<Rightarrow> False)"

definition rejected_call :: "pylib \<Rightarrow> config \<Rightarrow> 'w env \<Rightarrow> string \<times> pydict \<Rightarrow> 'w state \<Rightarrow> bool" where
  "rejected_call L cfg E c s =
     (case list_all_tools E (world s) of
        (Inr available_tools, w1) \<Rightarrow>
          (case validate_tool_call L cfg (time_time E w1) (fst c) (snd c) available_tools
                  (url_call_tracker s) of
             (Inr (False, errors), tr', checks) \<Rightarrow> True
           | _ \<Rightarrow> False)
      | _ \<Rightarrow> False)"

section \<open>Sample inputs\<close>

text \<open>Arguments of tool calls with their JSON texts, and a tracker with no call recorded.\<close>

definition dq :: "string \<Rightarrow> string" where
  \<comment> \<open>A text between double quotes.\<close>
  "dq t = CHR 0x22 # t @ [CHR 0x22]"

definition url_args :: "string \<Rightarrow> pydict" where
  \<comment> \<open>\<open>{'input': {'url': u}}\<close>\<close>
  "url_args u = [(''input'', PDict [(''url'', PStr u)])]"

definition url_args_json :: "string \<Rightarrow> string" where
  "url_args_json u = ''{'' @ dq ''input'' @ '': {'' @ dq ''url'' @ '': '' @ dq u @ ''}}''"

definition top_url_args :: pydict where
  \<comment> \<open>\<open>{'url': 'https://example.com/a'}\<close>\<close>
  "top_url_args = [(''url'', PStr ''https://example.com/a'')]"

definition top_url_args_json :: string where
  "top_url_args_json = ''{'' @ dq ''url'' @ '': '' @ dq ''https://example.com/a'' @ ''}''"

definition empty_tracker :: tracker where
  "empty_tracker = (\<lambda>domain. [])"

text \<open>
  The library functions, tabulated at the arguments that the concrete instances below
  pass to them (what Python returns there); any other argument raises.
\<close>

definition sample_lib :: pylib where
  "sample_lib =
     \<lparr> urlparse = (\<lambda>u.
         if u = PStr ''https://example.com/a''
         then Inr \<lparr> scheme = ''https'', netloc = ''example.com'', hostname = Some ''example.com'' \<rparr>
         else if u = PStr ''ftp://example.com/a''
         then Inr \<lparr> scheme = ''ftp'', netloc = ''example.com'', hostname = Some ''example.com'' \<rparr>
         else Inl ''not tabulated''),
       json_dumps = (\<lambda>v.
         if v = PDict [] then Inr ''{}''
         else if v = PDict top_url_args then Inr top_url_args_json
         else if v = PDict (url_args ''https://example.com/a'')
         then Inr (url_args_json ''https://example.com/a'')
         else if v = PDict (url_args ''ftp://example.com/a'')
         then Inr (url_args_json ''ftp://example.com/a'')
         else Inl ''not tabulated''),
       json_loads = (\<lambda>s.
         if s = ''{}'' then Inr (PDict [])
         else if s = ''[[1]]'' then Inr (PList [PList [PInt 1]])
         else if s = top_url_args_json then Inr (PDict top_url_args)
         else if s = url_args_json ''https://example.com/a''
         then Inr (PDict (url_args ''https://example.com/a''))
         else if s = url_args_json ''ftp://example.com/a''
         then Inr (PDict (url_args ''ftp://example.com/a''))
         else Inl ''not tabulated''),
       py_str = (\<lambda>v. case v of
           PNone \<Rightarrow> ''None''
         | PBool b \<Rightarrow> (if b then ''True'' else ''False'')
         | PInt i \<Rightarrow> show_int i
         | PStr s \<Rightarrow> s
         | _ \<Rightarrow> ''not tabulated'') \<rparr>"

text \<open>Two plan texts and the runs of the \<open>solve\<close> they define.\<close>

definition sample_plan :: plan where
  \<comment> \<open>The run of \<open>solve\<close> as \<open>sample_code\<close> defines it.\<close>
  "sample_plan =
     Await_call ''search'' []
       (\<lambda>r. case r of Inl msg \<Rightarrow> Raise (Exception (Inr msg))
                      | Inr v \<Rightarrow> Return (PDict [(''result'', v)]))"

definition sample_code :: string where
  "sample_code =
     ''async def solve():'' @ [CHR 0x0A]
     @ ''    r = await mcp.call_tool('' @ [CHR 0x27] @ ''search'' @ [CHR 0x27] @ '', {})'' @ [CHR 0x0A]
     @ ''    return {'' @ [CHR 0x27] @ ''result'' @ [CHR 0x27] @ '': r}''"

definition unknown_tool_plan :: plan where
  \<comment> \<open>The run of \<open>solve\<close> as \<open>unknown_tool_code\<close> defines it.\<close>
  "unknown_tool_plan =
     Await_call ''nope'' []
       (\<lambda>r. case r of Inl msg \<Rightarrow> Raise (Exception (Inr msg)) | Inr v \<Rightarrow> Return v)"

definition unknown_tool_code :: string where
  "unknown_tool_code =
     ''async def solve():'' @ [CHR 0x0A]
     @ ''    return await mcp.call_tool('' @ [CHR 0x27] @ ''nope'' @ [CHR 0x27] @ '', {})''"

text \<open>
  A sample world: a counter that every dispatcher operation advances and that the clock
  reads as seconds; two tools are registered and every dispatched call returns. The
  interpreter is tabulated at the plan texts used below.
\<close>

definition sample_env :: "nat env" where
  "sample_env =
     \<lparr> list_all_tools = (\<lambda>w. (Inr [''search'', ''fetch''], Suc w)),
       dispatcher_call_tool = (\<lambda>name args w. (Returned (PStr (''ok '' @ name)), Suc w)),
       time_time = real,
       exec_plan = (\<lambda>code.
         if code = ''x = 1'' then Inr None
         else if code = ''def solve(): return [1, 2]''
         then Inr (Some (Return (PList [PInt 1, PInt 2])))
         else if code = ''def solve(): return 7''
         then Inr (Some (Return (PInt 7)))
         else if code = ''def solve(): return {}''
         then Inr (Some (Return (PDict [])))
         else if code = ''def solve(): return 1 // 0''
         then Inr (Some (Raise (Exception (Inr ''integer division or modulo by zero''))))
         else if code = ''def solve(): raise SystemExit(3)''
         then Inr (Some (Raise (Base_exception ''SystemExit'')))
         else if code = ''def solve(): raise KeyboardInterrupt()''
         then Inr (Some (Raise (Base_exception ''KeyboardInterrupt'')))
         else if code = sample_code then Inr (Some sample_plan)
         else if code = unknown_tool_code then Inr (Some unknown_tool_plan)
         else Inl (Exception (Inr ''invalid syntax (<solve_plan>, line 1)''))) \<rparr>"

definition sample_state :: "nat state" where
  "sample_state = \<lparr> world = 0, url_call_tracker = empty_tracker, call_count = 0, events = [] \<rparr>"

text \<open>A plan of 10027 characters: two lines of code and a comment line of 10001.\<close>

definition long_plan :: string where
  "long_plan =
     (''def solve():'' @ [CHR 0x0A] @ ''    return 1'')
       @ CHR 0x0A # CHR ''#'' # replicate 10000 (CHR ''x'')"

text \<open>A plan that awaits the given calls one after the other, whatever they return or raise.\<close>

fun plan_of_calls :: "(string \<times> pydict) list \<Rightarrow> pyval \<Rightarrow> plan" where
  "plan_of_calls [] v = Return v"
| "plan_of_calls (c # cs) v = Await_call (fst c) (snd c) (\<lambda>r. plan_of_calls cs v)"

definition seven_calls :: "(string \<times> pydict) list" where
  "seven_calls =
     [(''search'', []), (''fetch'', []), (''search'', []), (''search'', []), (''fetch'', []),
      (''search'', []), (''search'', [])]"

definition unknown_tool_calls :: "(string \<times> pydict) list" where
  "unknown_tool_calls = replicate 5 (''nope'', []) @ [(''search'', [])]"

section \<open>Properties\<close>

subsection \<open>Strings\<close>

lemma startswith_iff: "startswith p s \<longleftrightarrow> (\<exists>b. s = p @ b)"
  by (induction p s rule: startswith.induct) auto

lemma py_in_iff: "py_in p s \<longleftrightarrow> (\<exists>a b. s = a @ p @ b)"
proof (induction s)
  case Nil
  then show ?case by auto
next
  case (Cons c cs)
  show ?case
  proof
    assume "py_in p (c # cs)"
    then consider "startswith p (c # cs)" | "py_in p cs" by auto
    then show "\<exists>a b. c # cs = a @ p @ b"
    proof cases
      case 1
      then obtain b where "c # cs = p @ b" by (auto simp: startswith_iff)
      then have "c # cs = [] @ p @ b" by simp
      then show ?thesis by blast
    next
      case 2
      then obtain a b where "cs = a @ p @ b" using Cons.IH by blast
      then have "c # cs = (c # a) @ p @ b" by simp
      then show ?thesis by blast
    qed
  next
    assume "\<exists>a b. c # cs = a @ p @ b"
    then obtain a b where ab: "c # cs = a @ p @ b" by blast
    show "py_in p (c # cs)"
    proof (cases a)
      case Nil
      with ab have "startswith p (c # cs)" by (auto simp: startswith_iff)
      then show ?thesis by simp
    next
      case (Cons a0 as)
      with ab have "cs = as @ p @ b" by simp
      then have "py_in p cs" using Cons.IH by blast
      then show ?thesis by simp
    qed
  qed
qed

lemma py_strip_infix: "\<exists>a b. s = a @ py_strip s @ b"
proof -
  let ?t = "dropWhile is_space s"
  have 1: "s = takeWhile is_space s @ ?t" by simp
  have "rev (takeWhile is_space (rev ?t) @ dropWhile is_space (rev ?t)) = rev (rev ?t)"
    by (simp only: takeWhile_dropWhile_id)
  then have "rev (dropWhile is_space (rev ?t)) @ rev (takeWhile is_space (rev ?t)) = ?t"
    by (simp only: rev_append rev_rev_ident)
  then have 2: "?t = py_strip s @ rev (takeWhile is_space (rev ?t))"
    by (simp only: py_strip_def)
  have "s = takeWhile is_space s @ py_strip s @ rev (takeWhile is_space (rev ?t))"
    using 1 2 by metis
  then show ?thesis by blast
qed

lemma py_in_strip: "py_in p (py_strip s) \<Longrightarrow> py_in p s"
proof -
  assume "py_in p (py_strip s)"
  then obtain a b where 1: "py_strip s = a @ p @ b" by (auto simp: py_in_iff)
  obtain c d where 2: "s = c @ py_strip s @ d" using py_strip_infix by blast
  have "s = (c @ a) @ p @ (b @ d)" using 1 2 by (metis append.assoc)
  then show ?thesis unfolding py_in_iff by blast
qed

subsection \<open>Command safety looks at marker lines only\<close>

lemma code_lines_empty:
  assumes "\<forall>line \<in> set (split_nl text). \<forall>kw \<in> set exec_markers. \<not> py_in kw line"
  shows "code_lines text = []"
  using assms py_in_strip by (fastforce simp: code_lines_def has_marker_def filter_empty_conv)

lemma set_code_lines:
  "set (code_lines text) =
     {s. \<exists>line \<in> set (split_nl text). s = py_strip line \<and> \<not> startswith ''#'' s
           \<and> (\<exists>kw \<in> set exec_markers. py_in kw s)}"
  by (auto simp: code_lines_def has_marker_def)

text \<open>
  C5. \<open>validate_command_safety\<close> decides on the retained lines alone: the stripped
  lines that are not comments and contain one of the markers \<open>subprocess.\<close>,
  \<open>os.system(\<close>, \<open>os.popen(\<close>, \<open>exec(\<close>, \<open>eval(\<close>. Two texts with the same retained
  lines get the same verdict, and a text none of whose lines contains a marker passes,
  whatever else it contains.
\<close>

theorem validate_command_safety_marker_lines_only:
  "(code_lines t1 = code_lines t2 \<longrightarrow>
      validate_command_safety cfg (PStr t1) = validate_command_safety cfg (PStr t2))
   \<and> set (code_lines text) =
       {s. \<exists>line \<in> set (split_nl text). s = py_strip line \<and> \<not> startswith ''#'' s
             \<and> (\<exists>kw \<in> set exec_markers. py_in kw s)}
   \<and> ((\<forall>line \<in> set (split_nl text). \<forall>kw \<in> set exec_markers. \<not> py_in kw line) \<longrightarrow>
        validate_command_safety cfg (PStr text) = (True, None))"
proof (intro conjI impI)
  assume "code_lines t1 = code_lines t2"
  then show "validate_command_safety cfg (PStr t1) = validate_command_safety cfg (PStr t2)"
    by (simp add: validate_command_safety_def)
next
  show "set (code_lines text) =
     {s. \<exists>line \<in> set (split_nl text). s = py_strip line \<and> \<not> startswith ''#'' s
           \<and> (\<exists>kw \<in> set exec_markers. py_in kw s)}"
    by (rule set_code_lines)
next
  assume "\<forall>line \<in> set (split_nl text). \<forall>kw \<in> set exec_markers. \<not> py_in kw line"
  then show "validate_command_safety cfg (PStr text) = (True, None)"
    by (simp add: validate_command_safety_def code_lines_empty)
qed

theorem validate_command_safety_marker_lines_only_witness:
  "py_in ''rm -rf'' ''x = 1 # os.system(...)'' = False
   \<and> py_in ''rm -rf'' (''cleanup = 1'' @ [CHR 0x0A] @ ''rm -rf /'')
   \<and> validate_command_safety default_config (PStr (''cleanup = 1'' @ [CHR 0x0A] @ ''rm -rf /''))
       = (True, None)
   \<and> validate_command_safety default_config (PStr ''# os.system(x)'')
       = validate_command_safety default_config (PStr ''y = 2'')"
proof -
  let ?text = "''cleanup = 1'' @ [CHR 0x0A] @ ''rm -rf /''"
  have h: "\<forall>line \<in> set (split_nl ?text). \<forall>kw \<in> set exec_markers. \<not> py_in kw line"
    by code_simp
  have c: "code_lines ''# os.system(x)'' = code_lines ''y = 2''"
    by code_simp
  have a: "py_in ''rm -rf'' ''x = 1 # os.system(...)'' = False" by code_simp
  have b: "py_in ''rm -rf'' ?text" by code_simp
  from validate_command_safety_marker_lines_only
         [of "''# os.system(x)''" "''y = 2''" default_config ?text] h c a b
  show ?thesis by blast
qed

subsection \<open>The depth limit of JSON input\<close>

lemma leaf_depths_nonempty: "leaf_depths v \<noteq> []"
proof (induction v rule: leaf_depths.induct)
  case (1 kvs)
  show ?case
  proof (cases kvs)
    case Nil
    then show ?thesis by simp
  next
    case (Cons kv rest)
    then have "leaf_depths (snd kv) \<noteq> []" using 1 by simp
    then show ?thesis using Cons by simp
  qed
next
  case (2 xs)
  show ?case
  proof (cases xs)
    case Nil
    then show ?thesis by simp
  next
    case (Cons x rest)
    then have "leaf_depths x \<noteq> []" using 2 by simp
    then show ?thesis using Cons by simp
  qed
qed simp_all

lemma py_max_gt: "xs \<noteq> [] \<Longrightarrow> m < py_max xs \<longleftrightarrow> (\<exists>x \<in> set xs. m < x)"
proof (cases xs)
  case Nil
  assume "xs \<noteq> []"
  with Nil show ?thesis by simp
next
  case (Cons y ys)
  have "py_max (y # ys) = Max (set (y # ys))" using Max.set_eq_fold [of y ys] by simp
  then show ?thesis using Cons by (simp add: Max_gr_iff)
qed

lemma get_depth_exceeds:
  "md < get_depth md v cur \<longleftrightarrow> (\<exists>d \<in> set (leaf_depths v). md < cur + int d)"
proof (induction md v cur rule: get_depth.induct)
  case (1 md kvs cur)
  show ?case
  proof (cases "cur > md")
    case True
    obtain d where "d \<in> set (leaf_depths (PDict kvs))"
      using leaf_depths_nonempty [of "PDict kvs"] by (meson last_in_set)
    moreover have "md < cur + int d" using True by simp
    ultimately show ?thesis using True by auto
  next
    case False
    show ?thesis
    proof (cases "kvs = []")
      case True
      then show ?thesis by simp
    next
      case ne: False
      have IH: "\<And>kv. kv \<in> set kvs \<Longrightarrow>
        md < get_depth md (snd kv) (cur + 1) \<longleftrightarrow> (\<exists>d \<in> set (leaf_depths (snd kv)). md < cur + 1 + int d)"
        using 1 False ne by simp
      have "md < get_depth md (PDict kvs) cur \<longleftrightarrow>
            (\<exists>kv \<in> set kvs. md < get_depth md (snd kv) (cur + 1))"
        using False ne by (simp add: py_max_gt)
      also have "\<dots> \<longleftrightarrow> (\<exists>kv \<in> set kvs. \<exists>d \<in> set (leaf_depths (snd kv)). md < cur + 1 + int d)"
        using IH by blast
      also have "\<dots> \<longleftrightarrow> (\<exists>d \<in> set (leaf_depths (PDict kvs)). md < cur + int d)"
        using ne by (auto simp: algebra_simps)
      finally show ?thesis .
    qed
  qed
next
  case (2 md xs cur)
  show ?case
  proof (cases "cur > md")
    case True
    obtain d where "d \<in> set (leaf_depths (PList xs))"
      using leaf_depths_nonempty [of "PList xs"] by (meson last_in_set)
    moreover have "md < cur + int d" using True by simp
    ultimately show ?thesis using True by auto
  next
    case False
    show ?thesis
    proof (cases "xs = []")
      case True
      then show ?thesis by simp
    next
      case ne: False
      have IH: "\<And>x. x \<in> set xs \<Longrightarrow>
        md < get_depth md x (cur + 1) \<longleftrightarrow> (\<exists>d \<in> set (leaf_depths x). md < cur + 1 + int d)"
        using 2 False ne by simp
      have "md < get_depth md (PList xs) cur \<longleftrightarrow>
            (\<exists>x \<in> set xs. md < get_depth md x (cur + 1))"
        using False ne by (simp add: py_max_gt)
      also have "\<dots> \<longleftrightarrow> (\<exists>x \<in> set xs. \<exists>d \<in> set (leaf_depths x). md < cur + 1 + int d)"
        using IH by blast
      also have "\<dots> \<longleftrightarrow> (\<exists>d \<in> set (leaf_depths (PList xs)). md < cur + int d)"
        using ne by (auto simp: algebra_simps)
      finally show ?thesis .
    qed
  qed
qed simp_all

lemma exceeds_nesting_depth:
  "(\<exists>d \<in> set (leaf_depths v). md < int d) \<longleftrightarrow> md < int (nesting_depth v)"
proof -
  have ne: "set (leaf_depths v) \<noteq> {}" using leaf_depths_nonempty by simp
  have "Max (set (leaf_depths v)) \<in> set (leaf_depths v)" using ne by (simp add: Max_in del: set_empty)
  moreover have "\<And>d. d \<in> set (leaf_depths v) \<Longrightarrow> d \<le> Max (set (leaf_depths v))" by simp
  ultimately show ?thesis unfolding nesting_depth_def
    by (metis (no_types, opaque_lifting) of_nat_le_iff order_less_le_trans)
qed

text \<open>
  For a JSON text that parses, \<open>validate_json_input\<close> succeeds exactly when the nesting
  depth of the parsed value is at most the limit in force, the value that \<open>max_depth\<close>
  holds after the first statement of the function: the boundary is inclusive at that
  limit and exclusive above, and the early return of \<open>get_depth\<close> never changes the
  verdict.
\<close>

lemma validate_json_input_depth_boundary:
  assumes "json_loads L json_str = Inr parsed" and "json_str \<noteq> []"
  shows "fst (validate_json_input L cfg json_str max_depth)
           \<longleftrightarrow> int (nesting_depth parsed) \<le> effective_max_depth cfg max_depth"
proof -
  let ?md = "effective_max_depth cfg max_depth"
  have "fst (validate_json_input L cfg json_str max_depth) \<longleftrightarrow> \<not> ?md < get_depth ?md parsed 0"
    using assms by (simp add: validate_json_input_def Let_def)
  also have "\<dots> \<longleftrightarrow> \<not> ?md < int (nesting_depth parsed)"
    using get_depth_exceeds [of ?md parsed 0] exceeds_nesting_depth [of parsed ?md] by simp
  finally show ?thesis by auto
qed

lemma validate_json_input_depth_boundary_examples:
  "json_loads sample_lib ''[[1]]'' = Inr (PList [PList [PInt 1]])
   \<and> nesting_depth (PList [PList [PInt 1]]) = 2
   \<and> fst (validate_json_input sample_lib default_config ''[[1]]'' (Some 2))
   \<and> \<not> fst (validate_json_input sample_lib default_config ''[[1]]'' (Some 1))
   \<and> fst (validate_json_input sample_lib (default_config\<lparr>max_json_depth := 2\<rparr>) ''[[1]]'' None)"
proof -
  have p: "json_loads sample_lib ''[[1]]'' = Inr (PList [PList [PInt 1]])" by code_simp
  have ne: "''[[1]]'' \<noteq> []" by simp
  have d: "nesting_depth (PList [PList [PInt 1]]) = 2" by code_simp
  have e2: "effective_max_depth default_config (Some 2) = 2"
    and e1: "effective_max_depth default_config (Some 1) = 1"
    and e0: "effective_max_depth (default_config\<lparr>max_json_depth := 2\<rparr>) None = 2"
    by (simp_all add: effective_max_depth_def)
  show ?thesis
    using validate_json_input_depth_boundary [OF p ne, of default_config "Some 2"]
          validate_json_input_depth_boundary [OF p ne, of default_config "Some 1"]
          validate_json_input_depth_boundary [OF p ne, of "default_config\<lparr>max_json_depth := 2\<rparr>" None]
          p d e2 e1 e0
    by simp
qed

text \<open>
  C7. The claim is that the check fails exactly when the nesting depth exceeds
  \<open>max_depth\<close>. The first statement of the function, \<open>max_depth = max_depth or
  self.config.max_json_depth\<close>, replaces an explicit \<open>max_depth = 0\<close> by the configured
  limit, as it does \<open>None\<close>: with \<open>max_depth = 0\<close> and the default configuration the text
  \<open>[[1]]\<close>, of depth 2, passes. The limit 0 is honoured when it comes from the
  configuration, where the same text fails.
\<close>

theorem explicit_zero_max_depth_ignored:
  "json_loads sample_lib ''[[1]]'' = Inr (PList [PList [PInt 1]])
   \<and> nesting_depth (PList [PList [PInt 1]]) = 2
   \<and> validate_json_input sample_lib default_config ''[[1]]'' (Some 0)
       = (True, None, Some (PList [PList [PInt 1]]))
   \<and> \<not> fst (validate_json_input sample_lib (default_config\<lparr>max_json_depth := 0\<rparr>) ''[[1]]'' None)"
proof -
  have p: "json_loads sample_lib ''[[1]]'' = Inr (PList [PList [PInt 1]])" by code_simp
  have d: "nesting_depth (PList [PList [PInt 1]]) = 2" by code_simp
  have e: "effective_max_depth default_config (Some 0) = 10"
    "effective_max_depth (default_config\<lparr>max_json_depth := 0\<rparr>) None = 0"
    by (simp_all add: effective_max_depth_def default_config_def)
  have g: "get_depth 10 (PList [PList [PInt 1]]) 0 = 2" "get_depth 0 (PList [PList [PInt 1]]) 0 = 1"
    by simp_all
  have a: "validate_json_input sample_lib default_config ''[[1]]'' (Some 0)
             = (True, None, Some (PList [PList [PInt 1]]))"
    using p e(1) g(1) by (simp add: validate_json_input_def)
  have b: "\<not> fst (validate_json_input sample_lib (default_config\<lparr>max_json_depth := 0\<rparr>) ''[[1]]'' None)"
    using p e(2) g(2) by (simp add: validate_json_input_def)
  from p d a b show ?thesis by blast
qed

subsection \<open>The rate limiter is a sliding window\<close>

lemma kept_in_window:
  "filter (\<lambda>t. t > now - real_of_int (url_call_window_seconds cfg)) ts = in_window cfg now ts"
  unfolding in_window_def by (rule filter_cong) auto

lemma in_window_elapsed:
  "\<forall>t \<in> set ts. t + real_of_int (url_call_window_seconds cfg) \<le> now \<Longrightarrow> in_window cfg now ts = []"
  by (auto simp: in_window_def filter_empty_conv)

text \<open>
  C4. For a URL that \<open>urlparse\<close> accepts, with \<open>domain\<close> its \<open>netloc\<close>:
  the call succeeds exactly when the number of recorded timestamps of the domain that are
  still within the window is below \<open>max_url_calls_per_domain\<close> (so the call that would
  take the count in the window above the quota fails); the list kept for the domain
  afterwards is the timestamps within the window, everything older being discarded, with
  the current time appended when the call succeeded; the lists of other domains are left
  alone; and once the window has elapsed since every recorded call, a call succeeds again
  (for a quota of at least one call).
\<close>

theorem check_url_rate_limit_sliding_window:
  assumes "urlparse L url = Inr parsed"
  shows "(fst (fst (check_url_rate_limit L cfg now url tr))
            \<longleftrightarrow> int (length (in_window cfg now (tr (netloc parsed)))) < max_url_calls_per_domain cfg)
       \<and> snd (check_url_rate_limit L cfg now url tr) (netloc parsed)
           = in_window cfg now (tr (netloc parsed))
               @ (if fst (fst (check_url_rate_limit L cfg now url tr)) then [now] else [])
       \<and> (\<forall>d. d \<noteq> netloc parsed \<longrightarrow> snd (check_url_rate_limit L cfg now url tr) d = tr d)
       \<and> (0 < max_url_calls_per_domain cfg
            \<and> (\<forall>t \<in> set (tr (netloc parsed)). t + real_of_int (url_call_window_seconds cfg) \<le> now)
          \<longrightarrow> fst (fst (check_url_rate_limit L cfg now url tr)))"
  using assms in_window_elapsed [of "tr (netloc parsed)" cfg now]
  by (auto simp: check_url_rate_limit_def Let_def kept_in_window)

theorem check_url_rate_limit_sliding_window_witness:
  "\<not> fst (fst (check_url_rate_limit sample_lib default_config 50 (PStr ''https://example.com/a'')
                 ((\<lambda>_. [])(''example.com'' := [0, 10, 20, 30, 40]))))
   \<and> fst (fst (check_url_rate_limit sample_lib default_config 61 (PStr ''https://example.com/a'')
                 ((\<lambda>_. [])(''example.com'' := [0, 10, 20, 30, 40]))))
   \<and> snd (check_url_rate_limit sample_lib default_config 61 (PStr ''https://example.com/a'')
            ((\<lambda>_. [])(''example.com'' := [0, 10, 20, 30, 40]))) ''example.com''
       = [10, 20, 30, 40, 61]
   \<and> fst (fst (check_url_rate_limit sample_lib default_config 100 (PStr ''https://example.com/a'')
                 ((\<lambda>_. [])(''example.com'' := [0, 10, 20, 30, 40]))))"
proof -
  let ?url = "PStr ''https://example.com/a''"
  let ?p = "\<lparr> scheme = ''https'', netloc = ''example.com'', hostname = Some ''example.com'' \<rparr>"
  let ?tr = "(\<lambda>_. [])(''example.com'' := [0, 10, 20, 30, 40 :: real])"
  have u: "urlparse sample_lib ?url = Inr ?p" by code_simp
  have n: "netloc ?p = ''example.com''" by simp
  have t: "?tr ''example.com'' = [0, 10, 20, 30, 40]" by simp
  have w50: "in_window default_config 50 [0, 10, 20, 30, 40] = [0, 10, 20, 30, 40]"
    and w61: "in_window default_config 61 [0, 10, 20, 30, 40] = [10, 20, 30, 40]"
    by (simp_all add: in_window_def default_config_def)
  have q: "max_url_calls_per_domain default_config = 5" "url_call_window_seconds default_config = 60"
    by (simp_all add: default_config_def)
  have el: "0 < max_url_calls_per_domain default_config
            \<and> (\<forall>t \<in> set (?tr (netloc ?p)). t + real_of_int (url_call_window_seconds default_config) \<le> 100)"
    by (simp add: default_config_def)
  note a = check_url_rate_limit_sliding_window [OF u, of default_config 50 ?tr]
  note b = check_url_rate_limit_sliding_window [OF u, of default_config 61 ?tr]
  note c = check_url_rate_limit_sliding_window [OF u, of default_config 100 ?tr]
  have 1: "\<not> fst (fst (check_url_rate_limit sample_lib default_config 50 ?url ?tr))"
    using a unfolding n t w50 q by simp
  have 2: "fst (fst (check_url_rate_limit sample_lib default_config 61 ?url ?tr))"
    using b unfolding n t w61 q by simp
  have 3: "snd (check_url_rate_limit sample_lib default_config 61 ?url ?tr) ''example.com''
             = [10, 20, 30, 40, 61]"
    using b 2 unfolding n t w61 by simp
  have 4: "fst (fst (check_url_rate_limit sample_lib default_config 100 ?url ?tr))"
    using c el by blast
  from 1 2 3 4 show ?thesis by blast
qed

subsection \<open>Matching a call pattern\<close>

lemma rmatch_rep_done: "rmatch ci (Rep c 0 (Some 0) # r) p s = rmatch ci r p s"
  by (cases s) simp_all

lemma rmatch_lit: "rmatch False (lit w @ r) p (w @ s) = rmatch False r (if w = [] then p else Some (last w)) s"
proof (induction w arbitrary: p)
  case Nil
  then show ?case by (simp add: lit_def)
next
  case (Cons c w)
  have "rmatch False (lit (c # w) @ r) p ((c # w) @ s)
          = rmatch False (lit w @ r) (Some c) (w @ s)"
    by (simp add: lit_def rmatch_rep_done)
  then show ?case using Cons.IH [of "Some c"] by simp
qed

lemma rmatch_star_spaces:
  assumes "\<forall>c \<in> set ws. is_space c"
    and "rmatch False r (if ws = [] then p else Some (last ws)) s"
  shows "rmatch False (rep_star sp # r) p (ws @ s)"
  using assms
proof (induction ws arbitrary: p)
  case Nil
  then show ?case by (cases s) (simp_all add: rep_star_def)
next
  case (Cons c ws)
  have "rmatch False (rep_star sp # r) (Some c) (ws @ s)"
    using Cons.IH [of "Some c"] Cons.prems by (cases ws) auto
  then show ?case using Cons.prems by (simp add: rep_star_def sp_def)
qed

lemma search_from_append:
  "rmatch ci r (if pre = [] then p else Some (last pre)) s \<Longrightarrow> search_from ci r p (pre @ s)"
proof (induction pre arbitrary: p)
  case Nil
  then show ?case by (cases s) simp_all
next
  case (Cons c pre)
  have "search_from ci r (Some c) (pre @ s)"
    using Cons.IH [of "Some c"] Cons.prems by (cases pre) auto
  then show ?case by simp
qed

lemma call_pattern_found:
  assumes "w \<noteq> []" "is_word (hd w)"
    and "pre = [] \<or> \<not> is_word (last pre)"
    and "\<forall>c \<in> set ws. is_space c"
  shows "re_search False (call_pattern w) (pre @ w @ ws @ ''('' @ post)"
proof -
  let ?rest = "w @ ws @ ''('' @ post"
  let ?p = "if pre = [] then None else Some (last pre)"
  have b: "at_boundary ?p ?rest"
    using assms(1,2,3) by (cases w) (auto simp: at_boundary_def)
  have open_paren: "rmatch False (lit ''('') q (''('' @ post)" for q
    using rmatch_lit [of "''(''" "[]" q post] by simp
  have "rmatch False (rep_star sp # lit ''('') (Some (last w)) (ws @ ''('' @ post)"
    by (rule rmatch_star_spaces [OF assms(4)]) (rule open_paren)
  then have "rmatch False (lit w @ rep_star sp # lit ''('') ?p ?rest"
    using assms(1) rmatch_lit [of w "rep_star sp # lit ''(''" ?p "ws @ ''('' @ post"] by simp
  then have "rmatch False (call_pattern w) ?p ?rest"
    using b by (simp add: call_pattern_def)
  then show ?thesis
    unfolding re_search_def by (rule search_from_append)
qed

subsection \<open>A plan with a dynamic-evaluation call is rejected before it is run\<close>

lemma plan_pattern_hit_rejected:
  assumes "(pattern, name) \<in> set plan_patterns"
    and "line \<in> set (split_nl code)" and "line_hit pattern line"
  shows "\<not> fst (validate_generated_plan cfg code)"
proof -
  let ?P = "\<lambda>(pattern, name). \<exists>line \<in> set (split_nl code). line_hit pattern line"
  have "\<exists>x \<in> set plan_patterns. ?P x" using assms by blast
  then have "find ?P plan_patterns \<noteq> None" unfolding find_None_iff by blast
  then obtain pn where "find ?P plan_patterns = Some pn" by blast
  then show ?thesis
    by (cases "validate_input_length cfg code"; cases pn)
       (auto simp: validate_generated_plan_def split: bool.splits)
qed

lemma rejected_plan_not_run:
  assumes "\<not> fst (validate_generated_plan cfg code)"
  shows "run_python_sandbox L cfg E code s
           = (Inr (''[sandbox error: Security validation failed - ''
                     @ fmt_msg (snd (validate_generated_plan cfg code)) @ '']''), s)"
  using assms by (cases "validate_generated_plan cfg code") (simp add: run_python_sandbox_def)

text \<open>
  C3. Let a line of the plan that is not a comment contain a call of \<open>eval\<close> (or of
  \<open>exec\<close>, \<open>execfile\<close>): the name, not preceded by a word character, then optional
  white space and an opening parenthesis. Then \<open>validate_generated_plan\<close> rejects the
  plan, and \<open>run_python_sandbox\<close> returns the security error with the state as it was:
  nothing was compiled or executed and the dispatcher was not asked anything (no event is
  logged and the world is unchanged).
\<close>

theorem dynamic_evaluation_plan_rejected_before_execution:
  assumes "line \<in> set (split_nl code)"
    and "\<not> startswith ''#'' (py_strip line)"
    and "line = pre @ w @ ws @ ''('' @ post"
    and "w \<in> set [''eval'', ''exec'', ''execfile'']"
    and "pre = [] \<or> \<not> is_word (last pre)"
    and "\<forall>c \<in> set ws. is_space c"
  shows "\<not> fst (validate_generated_plan cfg code)
       \<and> run_python_sandbox L cfg E code s
           = (Inr (''[sandbox error: Security validation failed - ''
                     @ fmt_msg (snd (validate_generated_plan cfg code)) @ '']''), s)
       \<and> events (snd (run_python_sandbox L cfg E code s)) = events s
       \<and> world (snd (run_python_sandbox L cfg E code s)) = world s"
proof -
  have w: "w \<noteq> []" "is_word (hd w)" and m: "(call_pattern w, w) \<in> set plan_patterns"
    using assms(4) by (auto simp: is_word_def plan_patterns_def)
  have "re_search False (call_pattern w) line"
    unfolding assms(3) by (rule call_pattern_found [OF w assms(5,6)])
  then have "line_hit (call_pattern w) line"
    using assms(2) by (simp add: line_hit_def)
  then have r: "\<not> fst (validate_generated_plan cfg code)"
    using plan_pattern_hit_rejected [OF m assms(1)] by blast
  show ?thesis
    using r rejected_plan_not_run [OF r, of L E s] by simp
qed

theorem dynamic_evaluation_plan_rejected_before_execution_witness:
  "run_python_sandbox sample_lib default_config sample_env
          (''def solve():'' @ [CHR 0x0A] @ ''    return eval (x)'') sample_state
     = (Inr (''[sandbox error: Security validation failed - Dangerous operation ''
              @ [CHR 0x27] @ ''eval'' @ [CHR 0x27] @ '' detected in plan]''), sample_state)"
proof -
  define code where "code = ''def solve():'' @ [CHR 0x0A] @ ''    return eval (x)''"
  define line where "line = ''    return eval (x)''"
  have 1: "line \<in> set (split_nl code)" unfolding code_def line_def by code_simp
  have 2: "\<not> startswith ''#'' (py_strip line)" unfolding line_def by code_simp
  have 3: "line = ''    return '' @ ''eval'' @ '' '' @ ''('' @ ''x)''" unfolding line_def by simp
  have 4: "''eval'' \<in> set [''eval'', ''exec'', ''execfile'']" by simp
  have 5: "''    return '' = [] \<or> \<not> is_word (last ''    return '')" by code_simp
  have 6: "\<forall>c \<in> set '' ''. is_space c" by code_simp
  have m: "fmt_msg (snd (validate_generated_plan default_config code))
             = ''Dangerous operation '' @ [CHR 0x27] @ ''eval'' @ [CHR 0x27] @ '' detected in plan''"
    unfolding code_def by code_simp
  have "run_python_sandbox sample_lib default_config sample_env code sample_state
     = (Inr (''[sandbox error: Security validation failed - Dangerous operation ''
              @ [CHR 0x27] @ ''eval'' @ [CHR 0x27] @ '' detected in plan]''), sample_state)"
    using dynamic_evaluation_plan_rejected_before_execution
            [OF 1 2 3 4 5 6, of default_config sample_lib sample_env sample_state]
    unfolding m by simp
  then show ?thesis unfolding code_def .
qed

subsection \<open>The length limit of a plan\<close>

lemma split_nl_nonempty: "split_nl s \<noteq> []"
  by (induction s) (auto elim: push_char.elims)

lemma push_char_append: "xs \<noteq> [] \<Longrightarrow> push_char c (xs @ ys) = push_char c xs @ ys"
  by (cases xs) simp_all

lemma split_nl_append: "split_nl (a @ CHR 0x0A # b) = split_nl a @ split_nl b"
  by (induction a) (simp_all add: push_char_append split_nl_nonempty)

lemma split_nl_single: "CHR 0x0A \<notin> set s \<Longrightarrow> split_nl s = [s]"
  by (induction s) auto

lemma strip_keeps_first: "\<not> is_space c \<Longrightarrow> \<exists>r. py_strip (c # s) = c # r"
proof -
  assume c: "\<not> is_space c"
  have "dropWhile is_space (rev s @ [c]) \<noteq> []"
    using c by (simp add: dropWhile_append)
  moreover have "last (dropWhile is_space (rev s @ [c])) = c"
    using c by (simp add: dropWhile_append)
  ultimately have "\<exists>r. dropWhile is_space (rev s @ [c]) = r @ [c]"
    by (metis append_butlast_last_id)
  then obtain r where "dropWhile is_space (rev s @ [c]) = r @ [c]" by blast
  then have "py_strip (c # s) = c # rev r" using c by (simp add: py_strip_def)
  then show ?thesis by blast
qed

lemma comment_line [simp]: "startswith ''#'' (py_strip (CHR ''#'' # c))"
proof -
  have "\<not> is_space CHR ''#''" by (simp add: is_space_def)
  then obtain r where "py_strip (CHR ''#'' # c) = CHR ''#'' # r"
    using strip_keeps_first by blast
  then show ?thesis by simp
qed

lemma validate_generated_plan_trailing_comment:
  assumes "CHR 0x0A \<notin> set c"
    and "int (length (code @ CHR 0x0A # CHR ''#'' # c)) \<le> max_input_length cfg"
  shows "validate_generated_plan cfg (code @ CHR 0x0A # CHR ''#'' # c) = validate_generated_plan cfg code"
proof -
  let ?long = "code @ CHR 0x0A # CHR ''#'' # c"
  have lines: "split_nl ?long = split_nl code @ [CHR ''#'' # c]"
    using assms(1) by (simp add: split_nl_append split_nl_single)
  have len: "validate_input_length cfg ?long = (True, None)"
           "validate_input_length cfg code = (True, None)"
    using assms(2) by (simp_all add: validate_input_length_def Let_def)
  have hit: "(\<exists>line \<in> set (split_nl ?long). line_hit pattern line)
              = (\<exists>line \<in> set (split_nl code). line_hit pattern line)" for pattern
    unfolding lines by (simp add: line_hit_def)
  have cl: "code_lines ?long = code_lines code"
    unfolding code_lines_def lines by simp
  have cs: "validate_command_safety cfg (PStr ?long) = validate_command_safety cfg (PStr code)"
    by (simp add: validate_command_safety_def cl)
  show ?thesis
    unfolding validate_generated_plan_def len hit cs ..
qed

text \<open>
  C2. The claim is that \<open>validate_generated_plan\<close> fails whenever the plan is longer
  than \<open>max_plan_length\<close> (10000 by default). The source checks the length with
  \<open>validate_input_length\<close>, that is against \<open>max_input_length\<close> (50000), and never
  reads \<open>max_plan_length\<close>: the plan \<open>long_plan\<close> of 10027 characters is accepted under
  the default configuration.
\<close>

theorem long_plan_accepted:
  "int (length long_plan) = 10027 \<and> max_plan_length default_config = 10000
   \<and> validate_generated_plan default_config long_plan = (True, None)"
proof -
  have n: "CHR 0x0A \<notin> set (replicate 10000 (CHR ''x''))" by simp
  have l: "int (length long_plan) = 10027" by (simp add: long_plan_def)
  have m: "max_plan_length default_config = 10000" "max_input_length default_config = 50000"
    by (simp_all add: default_config_def)
  have s: "validate_generated_plan default_config (''def solve():'' @ [CHR 0x0A] @ ''    return 1'')
             = (True, None)"
    by code_simp
  have "validate_generated_plan default_config long_plan = (True, None)"
    unfolding long_plan_def
    using validate_generated_plan_trailing_comment
            [OF n, of "''def solve():'' @ [CHR 0x0A] @ ''    return 1''" default_config] s m
    by simp
  with l m show ?thesis by simp
qed

subsection \<open>URL checks of a tool call\<close>

lemma url_checks_simps [simp]:
  "url_checks [] = []"
  "url_checks (c # cs) = (if c = Chk_url \<or> c = Chk_rate_limit then c # url_checks cs else url_checks cs)"
  by (simp_all add: url_checks_def)

lemma url_checks_append [simp]: "url_checks (xs @ ys) = url_checks xs @ url_checks ys"
  by (simp add: url_checks_def)












subsection \<open>The call budget of a plan run\<close>

lemma call_tool_count:
  "call_count (snd (call_tool L cfg E tool_name input_dict s)) = call_count s + 1"
  by (simp add: call_tool_def Let_def split: prod.splits sum.splits dresult.splits)

lemma call_tool_over_budget:
  "MAX_TOOL_CALLS_PER_PLAN \<le> call_count s \<Longrightarrow>
   call_tool L cfg E tool_name input_dict s = (Inl budget_error, s\<lparr>call_count := call_count s + 1\<rparr>)"
  by (simp add: call_tool_def Let_def)

lemma valid_callD:
  assumes "valid_call L cfg E c s"
  obtains available_tools w1 errors tr' checks result w2 where
    "list_all_tools E (world s) = (Inr available_tools, w1)"
    "validate_tool_call L cfg (time_time E w1) (fst c) (snd c) available_tools (url_call_tracker s)
       = (Inr (True, errors), tr', checks)"
    "dispatcher_call_tool E (fst c) (snd c) w1 = (Returned result, w2)"
proof -
  obtain listed w1 where l: "list_all_tools E (world s) = (listed, w1)" by fastforce
  from assms l obtain available_tools where t: "listed = Inr available_tools"
    by (cases listed) (simp_all add: valid_call_def)
  obtain v tr' checks where
    v: "validate_tool_call L cfg (time_time E w1) (fst c) (snd c) available_tools (url_call_tracker s)
          = (v, tr', checks)"
    by (metis surj_pair)
  from assms l t v obtain errors where ve: "v = Inr (True, errors)"
    by (cases v) (auto simp: valid_call_def split: bool.splits)
  obtain r w2 where d: "dispatcher_call_tool E (fst c) (snd c) w1 = (r, w2)" by fastforce
  from assms l t v ve d obtain result where "r = Returned result"
    by (cases r) (simp_all add: valid_call_def)
  with l t v ve d that show ?thesis by blast
qed

lemma rejected_callD:
  assumes "rejected_call L cfg E c s"
  obtains available_tools w1 errors tr' checks where
    "list_all_tools E (world s) = (Inr available_tools, w1)"
    "validate_tool_call L cfg (time_time E w1) (fst c) (snd c) available_tools (url_call_tracker s)
       = (Inr (False, errors), tr', checks)"
proof -
  obtain listed w1 where l: "list_all_tools E (world s) = (listed, w1)" by fastforce
  from assms l obtain available_tools where t: "listed = Inr available_tools"
    by (cases listed) (simp_all add: rejected_call_def)
  obtain v tr' checks where
    v: "validate_tool_call L cfg (time_time E w1) (fst c) (snd c) available_tools (url_call_tracker s)
          = (v, tr', checks)"
    by (metis surj_pair)
  from assms l t v obtain errors where ve: "v = Inr (False, errors)"
    by (cases v) (auto simp: rejected_call_def split: bool.splits)
  with l t v that show ?thesis by blast
qed

lemma call_tool_valid:
  assumes "call_count s < MAX_TOOL_CALLS_PER_PLAN" and "valid_call L cfg E (tool_name, input_dict) s"
  shows "\<exists>result. fst (call_tool L cfg E tool_name input_dict s) = Inr result"
proof -
  from assms(2) obtain available_tools w1 errors tr' checks result w2 where
    "list_all_tools E (world s) = (Inr available_tools, w1)"
    "validate_tool_call L cfg (time_time E w1) tool_name input_dict available_tools (url_call_tracker s)
       = (Inr (True, errors), tr', checks)"
    "dispatcher_call_tool E tool_name input_dict w1 = (Returned result, w2)"
    by (auto elim: valid_callD)
  then have "fst (call_tool L cfg E tool_name input_dict s) = Inr result"
    using assms(1) by (simp add: call_tool_def Let_def)
  then show ?thesis by blast
qed

lemma call_tool_rejected:
  assumes "call_count s < MAX_TOOL_CALLS_PER_PLAN" and "rejected_call L cfg E (tool_name, input_dict) s"
  shows "\<exists>errors. fst (call_tool L cfg E tool_name input_dict s)
                     = Inl (''Tool call validation failed: '' @ py_join ''; '' errors)"
proof -
  from assms(2) obtain available_tools w1 errors tr' checks where
    "list_all_tools E (world s) = (Inr available_tools, w1)"
    "validate_tool_call L cfg (time_time E w1) tool_name input_dict available_tools (url_call_tracker s)
       = (Inr (False, errors), tr', checks)"
    by (auto elim: rejected_callD)
  then have "fst (call_tool L cfg E tool_name input_dict s)
               = Inl (''Tool call validation failed: '' @ py_join ''; '' errors)"
    using assms(1) by (simp add: call_tool_def Let_def)
  then show ?thesis by blast
qed

lemma calls_of_run_nth:
  assumes "i < length (calls_of_run L cfg E p s)"
  shows "call_count (fst (calls_of_run L cfg E p s ! i)) = call_count s + int i
       \<and> snd (snd (calls_of_run L cfg E p s ! i))
           = fst (call_tool L cfg E (fst (fst (snd (calls_of_run L cfg E p s ! i))))
                                    (snd (fst (snd (calls_of_run L cfg E p s ! i))))
                                    (fst (calls_of_run L cfg E p s ! i)))"
  using assms
proof (induction p arbitrary: s i)
  case (Return v)
  then show ?case by simp
next
  case (Raise e)
  then show ?case by simp
next
  case (Await_call tool_name input_dict k)
  obtain r s' where step: "call_tool L cfg E tool_name input_dict s = (r, s')" by fastforce
  have cnt: "call_count s' = call_count s + 1"
    using call_tool_count [of L cfg E tool_name input_dict s] step by simp
  show ?case
  proof (cases i)
    case 0
    then show ?thesis using step by simp
  next
    case (Suc j)
    then have "j < length (calls_of_run L cfg E (k r) s')"
      using Await_call.prems step by simp
    from Await_call.IH [OF _ this] show ?thesis using Suc step cnt by simp
  qed
qed

text \<open>
  C1. In a plan run that starts with a fresh gateway (\<open>call_count\<close> 0), the call number
  \<open>i\<close> (from 0) finds the counter at \<open>i\<close>. The 6th call and every later call of the run
  fail with the budget error, whatever their name and arguments; each of the first 5
  calls that is valid succeeds.
\<close>

theorem call_budget:
  assumes "call_count s = 0" and "i < length (calls_of_run L cfg E p s)"
    and "calls_of_run L cfg E p s ! i = (pre, c, r)"
  shows "call_count pre = int i
       \<and> (5 \<le> i \<longrightarrow> r = Inl budget_error)
       \<and> (i < 5 \<and> valid_call L cfg E c pre \<longrightarrow> (\<exists>result. r = Inr result))"
proof -
  note n = calls_of_run_nth [OF assms(2)]
  have c: "call_count pre = int i" using n assms(1,3) by simp
  have r: "r = fst (call_tool L cfg E (fst c) (snd c) pre)" using n assms(3) by simp
  have over: "r = Inl budget_error" if "5 \<le> i"
    using r c that call_tool_over_budget [of pre L cfg E "fst c" "snd c"]
    by (simp add: MAX_TOOL_CALLS_PER_PLAN_def)
  have ok: "\<exists>result. r = Inr result" if "i < 5" "valid_call L cfg E c pre"
    using r c that call_tool_valid [of pre L cfg E "fst c" "snd c"]
    by (simp add: MAX_TOOL_CALLS_PER_PLAN_def)
  from c over ok show ?thesis by blast
qed

theorem call_budget_witness:
  "snd (snd (calls_of_run sample_lib default_config sample_env
               (plan_of_calls seven_calls PNone) sample_state ! 5)) = Inl budget_error
   \<and> snd (snd (calls_of_run sample_lib default_config sample_env
               (plan_of_calls seven_calls PNone) sample_state ! 6)) = Inl budget_error
   \<and> (\<exists>result. snd (snd (calls_of_run sample_lib default_config sample_env
               (plan_of_calls seven_calls PNone) sample_state ! 0)) = Inr result)
   \<and> (\<exists>result. snd (snd (calls_of_run sample_lib default_config sample_env
               (plan_of_calls seven_calls PNone) sample_state ! 4)) = Inr result)"
proof -
  define run where
    "run = calls_of_run sample_lib default_config sample_env (plan_of_calls seven_calls PNone) sample_state"
  have z: "call_count sample_state = 0" by (simp add: sample_state_def)
  have len: "length run = 7" unfolding run_def by code_simp
  have e: "run ! i = (fst (run ! i), fst (snd (run ! i)), snd (snd (run ! i)))" for i by simp
  have v0: "valid_call sample_lib default_config sample_env (fst (snd (run ! 0))) (fst (run ! 0))"
    unfolding run_def by code_simp
  have v4: "valid_call sample_lib default_config sample_env (fst (snd (run ! 4))) (fst (run ! 4))"
    unfolding run_def by code_simp
  have b: "call_count (fst (run ! i)) = int i
           \<and> (5 \<le> i \<longrightarrow> snd (snd (run ! i)) = Inl budget_error)
           \<and> (i < 5 \<and> valid_call sample_lib default_config sample_env (fst (snd (run ! i))) (fst (run ! i))
                \<longrightarrow> (\<exists>result. snd (snd (run ! i)) = Inr result))"
    if "i < length run" for i
    using that e [of i] unfolding run_def by (rule call_budget [OF z])
  have "snd (snd (run ! 5)) = Inl budget_error" using b [of 5] len by simp
  moreover have "snd (snd (run ! 6)) = Inl budget_error" using b [of 6] len by simp
  moreover have "\<exists>result. snd (snd (run ! 0)) = Inr result" using b [of 0] len v0 by simp
  moreover have "\<exists>result. snd (snd (run ! 4)) = Inr result" using b [of 4] len v4 by simp
  ultimately show ?thesis unfolding run_def by blast
qed

text \<open>
  C10. Every invocation of \<open>call_tool\<close> adds one to the counter, whatever becomes of the
  call. In a run from a fresh gateway whose first 5 calls are rejected by the validation,
  these 5 calls raise the validation error, the 6th call finds the counter at 5 and fails
  with the budget error, whatever its name and arguments.
\<close>

theorem rejected_calls_consume_budget:
  assumes "call_count s = 0" and "5 < length (calls_of_run L cfg E p s)"
    and "\<forall>i<5. rejected_call L cfg E (fst (snd (calls_of_run L cfg E p s ! i)))
                                      (fst (calls_of_run L cfg E p s ! i))"
  shows "(\<forall>i<5. \<exists>errors. snd (snd (calls_of_run L cfg E p s ! i))
                  = Inl (''Tool call validation failed: '' @ py_join ''; '' errors))
       \<and> call_count (fst (calls_of_run L cfg E p s ! 5)) = 5
       \<and> snd (snd (calls_of_run L cfg E p s ! 5)) = Inl budget_error
       \<and> call_count (snd (call_tool L cfg E tool_name input_dict t)) = call_count t + 1"
proof -
  have rej: "\<exists>errors. snd (snd (calls_of_run L cfg E p s ! i))
                  = Inl (''Tool call validation failed: '' @ py_join ''; '' errors)" if "i < 5" for i
  proof -
    let ?e = "calls_of_run L cfg E p s ! i"
    have i: "i < length (calls_of_run L cfg E p s)" using that assms(2) by simp
    note n = calls_of_run_nth [OF i]
    have "call_count (fst ?e) < MAX_TOOL_CALLS_PER_PLAN"
      using n assms(1) that by (simp add: MAX_TOOL_CALLS_PER_PLAN_def)
    moreover have "rejected_call L cfg E (fst (fst (snd ?e)), snd (fst (snd ?e))) (fst ?e)"
      using assms(3) that by simp
    ultimately show ?thesis
      using call_tool_rejected [of "fst ?e" L cfg E "fst (fst (snd ?e))" "snd (fst (snd ?e))"] n
      by simp
  qed
  note n5 = calls_of_run_nth [OF assms(2)]
  have c5: "call_count (fst (calls_of_run L cfg E p s ! 5)) = 5" using n5 assms(1) by simp
  have "snd (snd (calls_of_run L cfg E p s ! 5)) = Inl budget_error"
    using n5 c5 call_tool_over_budget [of "fst (calls_of_run L cfg E p s ! 5)" L cfg E]
    by (simp add: MAX_TOOL_CALLS_PER_PLAN_def)
  with rej c5 call_tool_count show ?thesis by blast
qed

theorem rejected_calls_consume_budget_witness:
  "valid_call sample_lib default_config sample_env (''search'', []) sample_state
   \<and> snd (snd (calls_of_run sample_lib default_config sample_env
               (plan_of_calls unknown_tool_calls PNone) sample_state ! 0))
       = Inl (''Tool call validation failed: Tool '' @ [CHR 0x27] @ ''nope'' @ [CHR 0x27]
               @ '' not found in registry. Available tools: search, fetch...'')
   \<and> fst (snd (calls_of_run sample_lib default_config sample_env
               (plan_of_calls unknown_tool_calls PNone) sample_state ! 5)) = (''search'', [])
   \<and> snd (snd (calls_of_run sample_lib default_config sample_env
               (plan_of_calls unknown_tool_calls PNone) sample_state ! 5)) = Inl budget_error"
proof -
  define run where
    "run = calls_of_run sample_lib default_config sample_env
             (plan_of_calls unknown_tool_calls PNone) sample_state"
  have z: "call_count sample_state = 0" by (simp add: sample_state_def)
  have len: "5 < length run" unfolding run_def by code_simp
  have rej: "\<forall>i<5. rejected_call sample_lib default_config sample_env
                      (fst (snd (run ! i))) (fst (run ! i))"
    unfolding run_def by code_simp
  have v: "valid_call sample_lib default_config sample_env (''search'', []) sample_state"
    by code_simp
  have c0: "snd (snd (run ! 0))
       = Inl (''Tool call validation failed: Tool '' @ [CHR 0x27] @ ''nope'' @ [CHR 0x27]
               @ '' not found in registry. Available tools: search, fetch...'')"
    unfolding run_def by code_simp
  have c5: "fst (snd (run ! 5)) = (''search'', [])" unfolding run_def by code_simp
  have "snd (snd (run ! 5)) = Inl budget_error"
    using len rej unfolding run_def
    by (rule rejected_calls_consume_budget [OF z, THEN conjunct2, THEN conjunct2, THEN conjunct1])
  with v c0 c5 show ?thesis unfolding run_def by blast
qed

subsection \<open>The outcome of a run\<close>

lemma sandbox_body_cases:
  "sandbox_body L cfg E code s =
     (case exec_plan E code of
        Inl e \<Rightarrow> (Inl e, fresh_run s)
      | Inr None \<Rightarrow> (Inl (Exception (Inr ''No solve() function found in plan.'')), fresh_run s)
      | Inr (Some p) \<Rightarrow>
          (case fst (run_plan L cfg E p (fresh_run s)) of
             Inl e \<Rightarrow> Inl e
           | Inr result \<Rightarrow>
               (case format_result L result of
                  Inl msg \<Rightarrow> Inl (Exception (Inr msg))
                | Inr text \<Rightarrow> Inr text),
           snd (run_plan L cfg E p (fresh_run s))))"
  by (simp add: sandbox_body_def Let_def split: sum.splits option.splits prod.splits)

lemma run_accepted:
  assumes "fst (validate_generated_plan cfg code)"
  shows "fst (run_python_sandbox L cfg E code s)
           = (case fst (sandbox_body L cfg E code s) of
                Inl e \<Rightarrow> handle_exception e
              | Inr text \<Rightarrow> Inr text)"
  using assms
  by (cases "validate_generated_plan cfg code")
     (simp add: run_python_sandbox_def split: prod.splits sum.splits)

lemma handle_exception_simps [simp]:
  "handle_exception (Exception (Inr msg)) = Inr (''[sandbox error: '' @ msg @ '']'')"
  "handle_exception (Exception (Inl raised)) = Inl raised"
  "handle_exception (Base_exception name) = Inl (Base_exception name)"
  by (simp_all add: handle_exception_def)

text \<open>
  C8. When the plan has passed the validation and its entry point has returned a value,
  the runner returns a text, which is: for a mapping with a key \<open>result\<close>, the text form
  of the value under that key; for any other mapping, its JSON serialisation; for a
  sequence (a Python \<open>list\<close>), the text forms of its elements joined by single spaces;
  for any other value, its text form.
\<close>

theorem result_normalization:
  assumes "fst (validate_generated_plan cfg code)"
    and "exec_plan E code = Inr (Some p)"
    and "fst (run_plan L cfg E p (fresh_run s)) = Inr result"
  shows "(\<forall>d v. result = PDict d \<and> map_of d ''result'' = Some v \<longrightarrow>
            fst (run_python_sandbox L cfg E code s) = Inr (py_str L v))
       \<and> (\<forall>d text. result = PDict d \<and> map_of d ''result'' = None
                     \<and> json_dumps L result = Inr text \<longrightarrow>
            fst (run_python_sandbox L cfg E code s) = Inr text)
       \<and> (\<forall>xs. result = PList xs \<longrightarrow>
            fst (run_python_sandbox L cfg E code s) = Inr (py_join '' '' (map (py_str L) xs)))
       \<and> ((\<forall>d. result \<noteq> PDict d) \<and> (\<forall>xs. result \<noteq> PList xs) \<longrightarrow>
            fst (run_python_sandbox L cfg E code s) = Inr (py_str L result))"
  using assms
  by (cases result) (auto simp: run_accepted sandbox_body_cases format_result_def)

theorem result_normalization_witness:
  "fst (run_python_sandbox sample_lib default_config sample_env sample_code sample_state)
     = Inr ''ok search''
   \<and> fst (run_python_sandbox sample_lib default_config sample_env ''def solve(): return {}'' sample_state)
     = Inr ''{}''
   \<and> fst (run_python_sandbox sample_lib default_config sample_env ''def solve(): return [1, 2]'' sample_state)
     = Inr ''1 2''
   \<and> fst (run_python_sandbox sample_lib default_config sample_env ''def solve(): return 7'' sample_state)
     = Inr ''7''"
proof -
  have v: "fst (validate_generated_plan default_config sample_code)"
    "fst (validate_generated_plan default_config ''def solve(): return {}'')"
    "fst (validate_generated_plan default_config ''def solve(): return [1, 2]'')"
    "fst (validate_generated_plan default_config ''def solve(): return 7'')"
    by code_simp+
  have x: "exec_plan sample_env sample_code = Inr (Some sample_plan)"
    "exec_plan sample_env ''def solve(): return {}'' = Inr (Some (Return (PDict [])))"
    "exec_plan sample_env ''def solve(): return [1, 2]'' = Inr (Some (Return (PList [PInt 1, PInt 2])))"
    "exec_plan sample_env ''def solve(): return 7'' = Inr (Some (Return (PInt 7)))"
    by (simp_all add: sample_env_def sample_code_def)
  have r: "fst (run_plan sample_lib default_config sample_env sample_plan (fresh_run sample_state))
             = Inr (PDict [(''result'', PStr ''ok search'')])"
    by code_simp
  have r': "fst (run_plan sample_lib default_config sample_env (Return v') (fresh_run sample_state)) = Inr v'"
    for v' by simp
  have t: "py_str sample_lib (PStr ''ok search'') = ''ok search''"
    "json_dumps sample_lib (PDict []) = Inr ''{}''"
    "py_join '' '' (map (py_str sample_lib) [PInt 1, PInt 2]) = ''1 2''"
    "py_str sample_lib (PInt 7) = ''7''"
    by code_simp+
  have "fst (run_python_sandbox sample_lib default_config sample_env sample_code sample_state)
          = Inr ''ok search''"
    using result_normalization [OF v(1) x(1) r] t(1) by simp
  moreover have "fst (run_python_sandbox sample_lib default_config sample_env
                        ''def solve(): return {}'' sample_state) = Inr ''{}''"
    using result_normalization [OF v(2) x(2) r'] t(2) by simp
  moreover have "fst (run_python_sandbox sample_lib default_config sample_env
                        ''def solve(): return [1, 2]'' sample_state) = Inr ''1 2''"
    using result_normalization [OF v(3) x(3) r'] t(3) by simp
  moreover have "fst (run_python_sandbox sample_lib default_config sample_env
                        ''def solve(): return 7'' sample_state) = Inr ''7''"
    using result_normalization [OF v(4) x(4) r'] t(4) by simp
  ultimately show ?thesis by blast
qed

text \<open>
  C9. The claim has every exception raised while the plan is loaded and run caught by the
  runner. The handler is \<open>except Exception\<close>: the plan \<open>def solve(): raise
  SystemExit(3)\<close> passes the validation, and the \<open>SystemExit\<close> that its run raises is not
  an instance of \<open>Exception\<close>, so it leaves \<open>run_python_sandbox\<close> uncaught.
\<close>

theorem system_exit_propagates_counterexample:
  "fst (validate_generated_plan default_config ''def solve(): raise SystemExit(3)'')
   \<and> exec_plan sample_env ''def solve(): raise SystemExit(3)''
       = Inr (Some (Raise (Base_exception ''SystemExit'')))
   \<and> fst (run_python_sandbox sample_lib default_config sample_env
            ''def solve(): raise SystemExit(3)'' sample_state)
       = Inl (Base_exception ''SystemExit'')"
proof -
  have v: "fst (validate_generated_plan default_config ''def solve(): raise SystemExit(3)'')"
    by code_simp
  have x: "exec_plan sample_env ''def solve(): raise SystemExit(3)''
             = Inr (Some (Raise (Base_exception ''SystemExit'')))"
    by (simp add: sample_env_def)
  have "fst (run_python_sandbox sample_lib default_config sample_env
            ''def solve(): raise SystemExit(3)'' sample_state)
       = Inl (Base_exception ''SystemExit'')"
    using v x by (simp add: run_accepted sandbox_body_cases)
  with v x show ?thesis by blast
qed

text \<open>
  C9, as amended. Every exception that is an instance of \<open>Exception\<close> and has a text
  form, raised while the plan is loaded, run or its result formatted, is caught by the
  runner and turned into the text \<open>[sandbox error: ...]\<close> with the text of the exception
  inside: the exception of compiling or executing the plan text, the missing \<open>solve\<close>,
  the exception that the run of \<open>solve\<close> raises, in particular a failure of the gateway
  (budget, validation, time-out, dispatcher) that reaches \<open>solve\<close> and is not caught
  there, and the failure of the JSON serialisation. A plan that fails the validation
  gives such a text too. An exception that is not an instance of \<open>Exception\<close>, raised by
  the plan text or by the run of \<open>solve\<close>, leaves \<open>run_python_sandbox\<close> uncaught.
\<close>

theorem failures_become_sandbox_errors:
  "(\<not> fst (validate_generated_plan cfg code) \<longrightarrow>
      fst (run_python_sandbox L cfg E code s)
        = Inr (''[sandbox error: Security validation failed - ''
                 @ fmt_msg (snd (validate_generated_plan cfg code)) @ '']''))
   \<and> (fst (validate_generated_plan cfg code) \<longrightarrow>
        (\<forall>msg. exec_plan E code = Inl (Exception (Inr msg)) \<longrightarrow>
           fst (run_python_sandbox L cfg E code s) = Inr (''[sandbox error: '' @ msg @ '']''))
      \<and> (exec_plan E code = Inr None \<longrightarrow>
           fst (run_python_sandbox L cfg E code s)
             = Inr ''[sandbox error: No solve() function found in plan.]'')
      \<and> (\<forall>p msg. exec_plan E code = Inr (Some p)
                 \<and> fst (run_plan L cfg E p (fresh_run s)) = Inl (Exception (Inr msg)) \<longrightarrow>
           fst (run_python_sandbox L cfg E code s) = Inr (''[sandbox error: '' @ msg @ '']''))
      \<and> (\<forall>tool_name input_dict k msg.
             exec_plan E code = Inr (Some (Await_call tool_name input_dict k))
             \<and> fst (call_tool L cfg E tool_name input_dict (fresh_run s)) = Inl msg
             \<and> k (Inl msg) = Raise (Exception (Inr msg)) \<longrightarrow>
           fst (run_python_sandbox L cfg E code s) = Inr (''[sandbox error: '' @ msg @ '']''))
      \<and> (\<forall>p result msg. exec_plan E code = Inr (Some p)
                 \<and> fst (run_plan L cfg E p (fresh_run s)) = Inr result
                 \<and> format_result L result = Inl msg \<longrightarrow>
           fst (run_python_sandbox L cfg E code s) = Inr (''[sandbox error: '' @ msg @ '']''))
      \<and> (\<forall>name. exec_plan E code = Inl (Base_exception name) \<longrightarrow>
           fst (run_python_sandbox L cfg E code s) = Inl (Base_exception name))
      \<and> (\<forall>p name. exec_plan E code = Inr (Some p)
                 \<and> fst (run_plan L cfg E p (fresh_run s)) = Inl (Base_exception name) \<longrightarrow>
           fst (run_python_sandbox L cfg E code s) = Inl (Base_exception name)))"
proof (intro conjI impI allI)
  assume "\<not> fst (validate_generated_plan cfg code)"
  then show "fst (run_python_sandbox L cfg E code s)
        = Inr (''[sandbox error: Security validation failed - ''
                 @ fmt_msg (snd (validate_generated_plan cfg code)) @ '']'')"
    by (cases "validate_generated_plan cfg code") (simp add: run_python_sandbox_def)
next
  fix msg
  assume "fst (validate_generated_plan cfg code)" "exec_plan E code = Inl (Exception (Inr msg))"
  then show "fst (run_python_sandbox L cfg E code s) = Inr (''[sandbox error: '' @ msg @ '']'')"
    by (simp add: run_accepted sandbox_body_cases)
next
  assume "fst (validate_generated_plan cfg code)" "exec_plan E code = Inr None"
  then show "fst (run_python_sandbox L cfg E code s)
             = Inr ''[sandbox error: No solve() function found in plan.]''"
    by (simp add: run_accepted sandbox_body_cases)
next
  fix p msg
  assume "fst (validate_generated_plan cfg code)"
    "exec_plan E code = Inr (Some p)
       \<and> fst (run_plan L cfg E p (fresh_run s)) = Inl (Exception (Inr msg))"
  then show "fst (run_python_sandbox L cfg E code s) = Inr (''[sandbox error: '' @ msg @ '']'')"
    by (simp add: run_accepted sandbox_body_cases)
next
  fix tool_name input_dict k msg
  assume v: "fst (validate_generated_plan cfg code)"
    and a: "exec_plan E code = Inr (Some (Await_call tool_name input_dict k))
             \<and> fst (call_tool L cfg E tool_name input_dict (fresh_run s)) = Inl msg
             \<and> k (Inl msg) = Raise (Exception (Inr msg))"
  then have "fst (run_plan L cfg E (Await_call tool_name input_dict k) (fresh_run s))
               = Inl (Exception (Inr msg))"
    by (cases "call_tool L cfg E tool_name input_dict (fresh_run s)") simp
  then show "fst (run_python_sandbox L cfg E code s) = Inr (''[sandbox error: '' @ msg @ '']'')"
    using v a by (simp add: run_accepted sandbox_body_cases)
next
  fix p result msg
  assume "fst (validate_generated_plan cfg code)"
    "exec_plan E code = Inr (Some p) \<and> fst (run_plan L cfg E p (fresh_run s)) = Inr result
       \<and> format_result L result = Inl msg"
  then show "fst (run_python_sandbox L cfg E code s) = Inr (''[sandbox error: '' @ msg @ '']'')"
    by (simp add: run_accepted sandbox_body_cases)
next
  fix name
  assume "fst (validate_generated_plan cfg code)" "exec_plan E code = Inl (Base_exception name)"
  then show "fst (run_python_sandbox L cfg E code s) = Inl (Base_exception name)"
    by (simp add: run_accepted sandbox_body_cases)
next
  fix p name
  assume "fst (validate_generated_plan cfg code)"
    "exec_plan E code = Inr (Some p)
       \<and> fst (run_plan L cfg E p (fresh_run s)) = Inl (Base_exception name)"
  then show "fst (run_python_sandbox L cfg E code s) = Inl (Base_exception name)"
    by (simp add: run_accepted sandbox_body_cases)
qed

theorem failures_become_sandbox_errors_witness:
  "fst (run_python_sandbox sample_lib default_config sample_env ''import subprocess'' sample_state)
     = Inr (''[sandbox error: Security validation failed - Dangerous operation ''
              @ [CHR 0x27] @ ''subprocess'' @ [CHR 0x27] @ '' detected in plan]'')
   \<and> fst (run_python_sandbox sample_lib default_config sample_env ''def solve(:'' sample_state)
     = Inr ''[sandbox error: invalid syntax (<solve_plan>, line 1)]''
   \<and> fst (run_python_sandbox sample_lib default_config sample_env ''x = 1'' sample_state)
     = Inr ''[sandbox error: No solve() function found in plan.]''
   \<and> fst (run_python_sandbox sample_lib default_config sample_env ''def solve(): return 1 // 0'' sample_state)
     = Inr ''[sandbox error: integer division or modulo by zero]''
   \<and> fst (run_python_sandbox sample_lib default_config sample_env unknown_tool_code sample_state)
     = Inr (''[sandbox error: Tool call validation failed: Tool '' @ [CHR 0x27] @ ''nope'' @ [CHR 0x27]
              @ '' not found in registry. Available tools: search, fetch...]'')
   \<and> fst (run_python_sandbox sample_lib default_config sample_env
            ''def solve(): raise KeyboardInterrupt()'' sample_state)
     = Inl (Base_exception ''KeyboardInterrupt'')"
proof -
  have v: "\<not> fst (validate_generated_plan default_config ''import subprocess'')"
    "fst (validate_generated_plan default_config ''def solve(:'')"
    "fst (validate_generated_plan default_config ''x = 1'')"
    "fst (validate_generated_plan default_config ''def solve(): return 1 // 0'')"
    "fst (validate_generated_plan default_config unknown_tool_code)"
    "fst (validate_generated_plan default_config ''def solve(): raise KeyboardInterrupt()'')"
    by code_simp+
  have m: "fmt_msg (snd (validate_generated_plan default_config ''import subprocess''))
             = ''Dangerous operation '' @ [CHR 0x27] @ ''subprocess'' @ [CHR 0x27] @ '' detected in plan''"
    by code_simp
  have x: "exec_plan sample_env ''def solve(:'' = Inl (Exception (Inr ''invalid syntax (<solve_plan>, line 1)''))"
    "exec_plan sample_env ''x = 1'' = Inr None"
    "exec_plan sample_env ''def solve(): return 1 // 0''
       = Inr (Some (Raise (Exception (Inr ''integer division or modulo by zero''))))"
    "exec_plan sample_env unknown_tool_code
       = Inr (Some (Await_call ''nope'' []
           (\<lambda>r. case r of Inl msg \<Rightarrow> Raise (Exception (Inr msg)) | Inr v \<Rightarrow> Return v)))"
    "exec_plan sample_env ''def solve(): raise KeyboardInterrupt()''
       = Inr (Some (Raise (Base_exception ''KeyboardInterrupt'')))"
    by (simp_all add: sample_env_def sample_code_def unknown_tool_code_def unknown_tool_plan_def)
  have r: "fst (run_plan sample_lib default_config sample_env
                  (Raise e) (fresh_run sample_state)) = Inl e" for e
    by simp
  have c: "fst (call_tool sample_lib default_config sample_env ''nope'' [] (fresh_run sample_state))
             = Inl (''Tool call validation failed: Tool '' @ [CHR 0x27] @ ''nope'' @ [CHR 0x27]
                     @ '' not found in registry. Available tools: search, fetch...'')"
    by code_simp
  note f = failures_become_sandbox_errors [of default_config _ sample_lib sample_env sample_state]
  have "fst (run_python_sandbox sample_lib default_config sample_env ''import subprocess'' sample_state)
     = Inr (''[sandbox error: Security validation failed - Dangerous operation ''
              @ [CHR 0x27] @ ''subprocess'' @ [CHR 0x27] @ '' detected in plan]'')"
    using f [of "''import subprocess''"] v(1) m by simp
  moreover have "fst (run_python_sandbox sample_lib default_config sample_env ''def solve(:'' sample_state)
     = Inr ''[sandbox error: invalid syntax (<solve_plan>, line 1)]''"
    using f [of "''def solve(:''"] v(2) x(1) by simp
  moreover have "fst (run_python_sandbox sample_lib default_config sample_env ''x = 1'' sample_state)
     = Inr ''[sandbox error: No solve() function found in plan.]''"
    using f [of "''x = 1''"] v(3) x(2) by simp
  moreover have "fst (run_python_sandbox sample_lib default_config sample_env
                        ''def solve(): return 1 // 0'' sample_state)
     = Inr ''[sandbox error: integer division or modulo by zero]''"
    using f [of "''def solve(): return 1 // 0''"] v(4) x(3) r by simp
  moreover have "fst (run_python_sandbox sample_lib default_config sample_env unknown_tool_code sample_state)
     = Inr (''[sandbox error: Tool call validation failed: Tool '' @ [CHR 0x27] @ ''nope'' @ [CHR 0x27]
              @ '' not found in registry. Available tools: search, fetch...]'')"
    using f [of unknown_tool_code] v(5) x(4) c by simp
  moreover have "fst (run_python_sandbox sample_lib default_config sample_env
            ''def solve(): raise KeyboardInterrupt()'' sample_state)
     = Inl (Base_exception ''KeyboardInterrupt'')"
    using f [of "''def solve(): raise KeyboardInterrupt()''"] v(6) x(5) r by simp
  ultimately show ?thesis by blast
qed

end
